theory Spec2Isabelle
  imports Main
begin

section \<open>Data model\<close>

text \<open>
  The tables of the schema that the leave controller and the gate controller read and
  write. Calendar dates (\<open>DATE\<close> columns) are day numbers; instants (JavaScript
  \<open>Date\<close> values and \<open>TIMESTAMP\<close> columns) are milliseconds on the server's local
  time line, so that local midnight of day \<open>d\<close> is \<open>d * 86400000\<close> (the time zone
  offset is taken as zero and every day has 24 hours). Strings are lists of
  8-bit characters. Column lengths and the notifications table are not modelled.
\<close>

datatype leave_status = PENDING | APPROVED_DW | APPROVED_PRINCIPAL | REJECTED | LEAVE_EXPIRED

datatype extension_status = EXT_PENDING | EXT_APPROVED | EXT_REJECTED

datatype validation_status = VALID | INVALID | EXPIRED | UNAUTHORIZED | MANUAL

record student =
  s_id :: nat
  s_user_id :: nat
  college_id :: string
  student_name :: string
  department :: "string option"
  hostel_block :: "string option"
  room_number :: "string option"
  photo_url :: "string option"
  parent_id :: "nat option"

record staff =
  st_id :: nat
  st_user_id :: nat

record parent =
  p_id :: nat
  p_user_id :: nat

record leave_application =
  la_id :: nat
  la_student_id :: nat
  leave_type :: string
  from_date :: int
  to_date :: int
  reason :: string
  destination :: "string option"
  contact_during_leave :: "string option"
  la_status :: leave_status
  approved_by_dw :: "nat option"
  approved_by_principal :: "nat option"
  dw_remarks :: "string option"
  principal_remarks :: "string option"
  dw_approved_at :: "int option"
  principal_approved_at :: "int option"
  qr_code_generated :: bool
  qr_code_data :: "string option"
  qr_code_expires_at :: "int option"

record emergency_extension =
  ee_id :: nat
  ee_leave_application_id :: nat
  requested_by_parent :: nat
  extended_to_date :: int
  ee_reason :: string
  ee_status :: extension_status
  ee_approved_by :: "nat option"
  ee_remarks :: "string option"
  ee_approved_at :: "int option"

text \<open>
  A row of \<open>gate_logs\<close>. The schema declares \<open>student_id INT NOT NULL\<close> and
  \<open>leave_application_id INT NULL\<close>, so a stored row always has a student and may lack an
  application.
\<close>

record gate_log =
  gl_id :: nat
  gl_student_id :: nat
  gl_leave_application_id :: "nat option"
  action_type :: string
  scanned_by :: nat
  scan_timestamp :: int
  gl_qr_code_data :: "string option"
  validation_status :: validation_status
  validation_message :: string
  location :: string

record db =
  students :: "student list"
  staff_rows :: "staff list"
  parents :: "parent list"
  leave_applications :: "leave_application list"
  emergency_extensions :: "emergency_extension list"
  gate_logs :: "gate_log list"

text \<open>The object that \<open>generateQRCodeData\<close> serialises and \<open>JSON.parse\<close> gives back.\<close>

record qr_data =
  q_leaveId :: nat
  q_studentId :: nat
  q_collegeId :: string
  q_studentName :: string
  q_fromDate :: string
  q_toDate :: string
  q_validFrom :: "string option"
  q_hash :: string

text \<open>
  The process environment and the library functions the code calls: the configuration
  variables (absent or unparsable is \<open>None\<close>), SHA-256 with hex output, \<open>JSON.parse\<close> on a
  scanned payload (\<open>None\<close> when it throws), \<open>Date.prototype.toJSON\<close>,
  \<open>Date.prototype.toLocaleString\<close> and \<open>QRCode.toDataURL\<close>.
\<close>

record env =
  JWT_SECRET :: string
  MAX_REGULAR_LEAVE_DAYS :: "int option"
  MIN_ADVANCE_DAYS :: "int option"
  QR_CODE_VALIDITY_HOURS :: "int option"
  sha256_hex :: "string \<Rightarrow> string"
  JSON_parse :: "string \<Rightarrow> qr_data option"
  toJSON :: "int \<Rightarrow> string"
  toLocaleString :: "int \<Rightarrow> string"
  toDataURL :: "string \<Rightarrow> string"

text \<open>\<open>parseInt(v) || d\<close>: the default replaces a missing value and also zero.\<close>

definition parseInt_or :: "int option \<Rightarrow> int \<Rightarrow> int" where
  "parseInt_or v d = (case v of None \<Rightarrow> d | Some n \<Rightarrow> if n = 0 then d else n)"

definition day_ms :: int where
  "day_ms = 86400000"

text \<open>\<open>new Date(d)\<close> for a date column: local midnight.\<close>

definition date_instant :: "int \<Rightarrow> int" where
  "date_instant d = d * day_ms"

text \<open>\<open>toDate.setHours(23, 59, 59)\<close> on local midnight: the milliseconds stay zero.\<close>

definition end_of_day :: "int \<Rightarrow> int" where
  "end_of_day d = date_instant d + (23 * 3600 + 59 * 60 + 59) * 1000"

text \<open>\<open>AUTO_INCREMENT\<close>: an identifier above every one in use.\<close>

definition fresh_id :: "nat list \<Rightarrow> nat" where
  "fresh_id ids = Suc (fold max ids 0)"

section \<open>Credential codec (utils/helpers.js)\<close>

definition digit_char :: "nat \<Rightarrow> char" where
  "digit_char n = char_of (48 + n)"

function show_nat :: "nat \<Rightarrow> string" where
  "show_nat n = (if n < 10 then [digit_char n] else show_nat (n div 10) @ [digit_char (n mod 10)])"
  by pat_completeness auto
termination
  by (relation "measure id") auto

definition hex_char :: "nat \<Rightarrow> char" where
  "hex_char n = (if n < 10 then char_of (48 + n) else char_of (87 + n))"

text \<open>
  \<open>JSON.stringify\<close> on a string: the quotation mark and the backslash are escaped, the
  control characters have a short escape or \<open>\u00XX\<close>, every other character stands for
  itself.
\<close>

definition json_escape_char :: "char \<Rightarrow> string" where
  "json_escape_char c =
     (if c = CHR 0x22 then [CHR 0x5C, CHR 0x22]
      else if c = CHR 0x5C then [CHR 0x5C, CHR 0x5C]
      else if c = CHR 0x08 then [CHR 0x5C, CHR ''b'']
      else if c = CHR 0x0C then [CHR 0x5C, CHR ''f'']
      else if c = CHR 0x0A then [CHR 0x5C, CHR ''n'']
      else if c = CHR 0x0D then [CHR 0x5C, CHR ''r'']
      else if c = CHR 0x09 then [CHR 0x5C, CHR ''t'']
      else if (of_char c :: nat) < 32
        then [CHR 0x5C, CHR ''u'', CHR ''0'', CHR ''0'',
              hex_char (of_char c div 16), hex_char (of_char c mod 16)]
      else [c])"



definition json_string :: "string \<Rightarrow> string" where
  "json_string s = CHR 0x22 # concat (map json_escape_char s) @ [CHR 0x22]"

definition json_key :: "string \<Rightarrow> string" where
  "json_key k = CHR 0x22 # k @ [CHR 0x22, CHR '':'']"

text \<open>
  \<open>generateHash\<close>, on the object \<open>{leaveId, studentId, fromDate}\<close> that both callers pass:
  SHA-256 of the serialised object followed by the secret.
\<close>

definition stringify_binding :: "nat \<Rightarrow> nat \<Rightarrow> string \<Rightarrow> string" where
  "stringify_binding l s f =
     ''{'' @ json_key ''leaveId'' @ show_nat l @ '','' @ json_key ''studentId'' @ show_nat s
       @ '','' @ json_key ''fromDate'' @ json_string f @ ''}''"

definition generateHash :: "env \<Rightarrow> nat \<Rightarrow> nat \<Rightarrow> string \<Rightarrow> string" where
  "generateHash e l s f = sha256_hex e (stringify_binding l s f @ JWT_SECRET e)"

definition json_opt_string :: "string option \<Rightarrow> string" where
  "json_opt_string v = (case v of None \<Rightarrow> ''null'' | Some s \<Rightarrow> json_string s)"

definition stringify_qr_data :: "qr_data \<Rightarrow> string" where
  "stringify_qr_data d =
     ''{'' @ json_key ''leaveId'' @ show_nat (q_leaveId d)
       @ '','' @ json_key ''studentId'' @ show_nat (q_studentId d)
       @ '','' @ json_key ''collegeId'' @ json_string (q_collegeId d)
       @ '','' @ json_key ''studentName'' @ json_string (q_studentName d)
       @ '','' @ json_key ''fromDate'' @ json_string (q_fromDate d)
       @ '','' @ json_key ''toDate'' @ json_string (q_toDate d)
       @ '','' @ json_key ''validFrom'' @ json_opt_string (q_validFrom d)
       @ '','' @ json_key ''hash'' @ json_string (q_hash d) @ ''}''"

text \<open>
  \<open>generateQRCodeData\<close>: the dates are \<open>Date\<close> objects, which \<open>JSON.stringify\<close> renders
  with \<open>toJSON\<close>; \<open>validFrom\<close> is the application's \<open>qr_code_expires_at\<close> as it was read.
\<close>

definition qr_data_of :: "env \<Rightarrow> leave_application \<Rightarrow> student \<Rightarrow> qr_data" where
  "qr_data_of e la s =
     \<lparr> q_leaveId = la_id la, q_studentId = s_id s, q_collegeId = college_id s,
       q_studentName = student_name s,
       q_fromDate = toJSON e (date_instant (from_date la)),
       q_toDate = toJSON e (date_instant (to_date la)),
       q_validFrom = map_option (toJSON e) (qr_code_expires_at la),
       q_hash = generateHash e (la_id la) (s_id s) (toJSON e (date_instant (from_date la))) \<rparr>"

definition generateQRCodeData :: "env \<Rightarrow> leave_application \<Rightarrow> student \<Rightarrow> string" where
  "generateQRCodeData e la s = stringify_qr_data (qr_data_of e la s)"

record validation =
  valid :: bool
  v_message :: string
  v_leave :: "leave_application option"

text \<open>
  The query of \<open>validateQRCode\<close>: the application with the given id whose student is the
  given one, joined with that student's row.
\<close>

definition find_leave_of_student :: "db \<Rightarrow> nat \<Rightarrow> nat \<Rightarrow> leave_application option" where
  "find_leave_of_student d l s =
     (case find (\<lambda>x. s_id x = s) (students d) of
        None \<Rightarrow> None
      | Some _ \<Rightarrow> find (\<lambda>la. la_id la = l \<and> la_student_id la = s) (leave_applications d))"

text \<open>
  \<open>validateQRCode\<close>, with \<open>now\<close> the clock it reads. \<open>new Date(null)\<close> is the epoch, so an
  application without \<open>qr_code_expires_at\<close> is valid from instant 0.
\<close>

definition validateQRCode :: "env \<Rightarrow> db \<Rightarrow> int \<Rightarrow> string \<Rightarrow> validation" where
  "validateQRCode e d now qrData =
     (case JSON_parse e qrData of
        None \<Rightarrow> \<lparr> valid = False, v_message = ''Invalid QR code format'', v_leave = None \<rparr>
      | Some dat \<Rightarrow>
          if q_hash dat \<noteq> generateHash e (q_leaveId dat) (q_studentId dat) (q_fromDate dat)
          then \<lparr> valid = False, v_message = ''QR code tampered or invalid'', v_leave = None \<rparr>
          else
            (case find_leave_of_student d (q_leaveId dat) (q_studentId dat) of
               None \<Rightarrow> \<lparr> valid = False, v_message = ''Leave application not found'', v_leave = None \<rparr>
             | Some leave \<Rightarrow>
                 if la_status leave \<noteq> APPROVED_DW \<and> la_status leave \<noteq> APPROVED_PRINCIPAL
                 then \<lparr> valid = False, v_message = ''Leave not approved'', v_leave = None \<rparr>
                 else
                   (let validFrom = (case qr_code_expires_at leave of None \<Rightarrow> 0 | Some t \<Rightarrow> t)
                    in if now < validFrom
                       then \<lparr> valid = False,
                              v_message = ''QR code not yet valid. Valid from '' @ toLocaleString e validFrom,
                              v_leave = None \<rparr>
                       else if now > end_of_day (to_date leave)
                       then \<lparr> valid = False, v_message = ''Leave period expired'', v_leave = None \<rparr>
                       else \<lparr> valid = True, v_message = ''Valid QR code'', v_leave = Some leave \<rparr>)))"

section \<open>Gate scans (controllers/qrController.js)\<close>

record scan_request =
  rq_qrData :: string
  rq_actionType :: string
  rq_location :: string

text \<open>
  The clocks one scan reads: \<open>now\<close> in \<open>validateQRCode\<close>, \<open>today\<close> in the re-entry
  check of \<open>scanQRCode\<close>, and the database's \<open>CURRENT_TIMESTAMP\<close> at the insert.
\<close>

record times =
  t_now :: int
  t_today :: int
  t_db :: int

text \<open>The \<open>logEntry\<close> object of \<open>scanQRCode\<close>.\<close>

record log_entry =
  le_studentId :: "nat option"
  le_leaveApplicationId :: "nat option"
  le_actionType :: string
  le_scannedBy :: nat
  le_qrCodeData :: string
  le_validationStatus :: validation_status
  le_validationMessage :: string
  le_location :: string

text \<open>
  \<open>SELECT ... WHERE student_id = ? AND leave_application_id = ? ORDER BY scan_timestamp
  DESC LIMIT 1\<close>: a row of the pair with the greatest timestamp; among rows of equal
  timestamp the model takes the one inserted last.
\<close>

definition later_row :: "gate_log \<Rightarrow> gate_log \<Rightarrow> gate_log" where
  "later_row x best = (if scan_timestamp best \<le> scan_timestamp x then x else best)"

definition lastLog :: "gate_log list \<Rightarrow> nat \<Rightarrow> nat \<Rightarrow> gate_log option" where
  "lastLog logs s l =
     (case filter (\<lambda>g. gl_student_id g = s \<and> gl_leave_application_id g = Some l) logs of
        [] \<Rightarrow> None
      | g # gs \<Rightarrow> Some (fold later_row gs g))"

text \<open>
  The body of \<open>scanQRCode\<close> between the call of \<open>validateQRCode\<close> and the insert: the
  final validation object and the log entry. \<open>None\<close> stands for an exception
  (\<open>JSON.parse\<close> throwing, or reading \<open>to_date\<close> of a missing leave).
\<close>

definition no_exit_message :: string where
  "no_exit_message = ''No exit record found. Entry not allowed.''"

definition scan_check ::
  "env \<Rightarrow> db \<Rightarrow> times \<Rightarrow> nat \<Rightarrow> scan_request \<Rightarrow> (validation \<times> log_entry) option" where
  "scan_check e d t user rq =
     (let validation = validateQRCode e d (t_now t) (rq_qrData rq);
          logEntry = \<lparr> le_studentId = None, le_leaveApplicationId = None,
                       le_actionType = rq_actionType rq, le_scannedBy = user,
                       le_qrCodeData = rq_qrData rq,
                       le_validationStatus = (if valid validation then VALID else INVALID),
                       le_validationMessage = v_message validation,
                       le_location = (if rq_location rq = [] then ''Main Gate'' else rq_location rq) \<rparr>
      in if \<not> valid validation then Some (validation, logEntry)
         else
           (case JSON_parse e (rq_qrData rq) of
              None \<Rightarrow> None
            | Some qrDataParsed \<Rightarrow>
                (let logEntry1 = logEntry\<lparr> le_studentId := Some (q_studentId qrDataParsed),
                                           le_leaveApplicationId := Some (q_leaveId qrDataParsed) \<rparr>;
                     lastRow = lastLog (gate_logs d) (q_studentId qrDataParsed) (q_leaveId qrDataParsed);
                     noExit = (rq_actionType rq = ''ENTRY'' \<and>
                               (case lastRow of None \<Rightarrow> True | Some g \<Rightarrow> action_type g \<noteq> ''EXIT''));
                     validation2 = (if noExit
                                    then validation\<lparr> valid := False, v_message := no_exit_message \<rparr>
                                    else validation);
                     logEntry2 = (if noExit
                                  then logEntry1\<lparr> le_validationStatus := INVALID,
                                                  le_validationMessage := no_exit_message \<rparr>
                                  else logEntry1)
                 in if rq_actionType rq = ''ENTRY'' \<and> valid validation2
                    then
                      (case v_leave validation2 of
                         None \<Rightarrow> None
                       | Some leave \<Rightarrow>
                           if t_today t > end_of_day (to_date leave)
                           then Some (validation2\<lparr> valid := False, v_message := ''Leave period expired'' \<rparr>,
                                      logEntry2\<lparr> le_validationStatus := EXPIRED,
                                                 le_validationMessage := ''Leave period expired'' \<rparr>)
                           else Some (validation2, logEntry2))
                    else Some (validation2, logEntry2))))"

text \<open>
  \<open>INSERT INTO gate_logs\<close>. The column \<open>student_id\<close> is \<open>NOT NULL\<close>: the database
  refuses a row without a student and the driver throws (\<open>None\<close>). The foreign keys hold
  on every path that reaches the insert with a student and are not checked here.
\<close>

definition insert_gate_log ::
  "nat option \<Rightarrow> nat option \<Rightarrow> string \<Rightarrow> nat \<Rightarrow> validation_status \<Rightarrow> string \<Rightarrow> string option
     \<Rightarrow> string \<Rightarrow> int \<Rightarrow> db \<Rightarrow> (nat \<times> db) option" where
  "insert_gate_log sid lid act by_user vs msg qr loc ts d =
     (case sid of
        None \<Rightarrow> None
      | Some s \<Rightarrow>
          (let i = fresh_id (map gl_id (gate_logs d))
           in Some (i, d\<lparr> gate_logs := gate_logs d @
                [\<lparr> gl_id = i, gl_student_id = s, gl_leave_application_id = lid, action_type = act,
                   scanned_by = by_user, scan_timestamp = ts, gl_qr_code_data = qr,
                   validation_status = vs, validation_message = msg, location = loc \<rparr>] \<rparr>)))"

text \<open>The row that the insert of \<open>scanQRCode\<close> stores for a log entry with a student.\<close>

definition row_of :: "log_entry \<Rightarrow> nat \<Rightarrow> nat \<Rightarrow> int \<Rightarrow> gate_log" where
  "row_of le s i ts =
     \<lparr> gl_id = i, gl_student_id = s, gl_leave_application_id = le_leaveApplicationId le,
       action_type = le_actionType le, scanned_by = le_scannedBy le, scan_timestamp = ts,
       gl_qr_code_data = Some (le_qrCodeData le), validation_status = le_validationStatus le,
       validation_message = le_validationMessage le, location = le_location le \<rparr>"

text \<open>The data of the handler's answer; its \<open>timestamp\<close> field is left out.\<close>

record scan_payload =
  sp_logId :: nat
  sp_actionType :: string
  sp_validationStatus :: validation_status
  sp_student :: "student option"
  sp_leave :: "(int \<times> int \<times> leave_status) option"
  sp_allowed :: bool

datatype scan_response =
    ScanFailure nat string
  | ScanDone bool string scan_payload

text \<open>
  \<open>scanQRCode\<close> for the authenticated user \<open>user\<close>. A missing request field is the empty
  string. Any exception ends in the handler's \<open>catch\<close>: status 500, nothing written.
\<close>

definition scanQRCode ::
  "env \<Rightarrow> times \<Rightarrow> nat \<Rightarrow> scan_request \<Rightarrow> db \<Rightarrow> scan_response \<times> db" where
  "scanQRCode e t user rq d =
     (if rq_qrData rq = [] \<or> rq_actionType rq = []
      then (ScanFailure 400 ''QR data and action type are required'', d)
      else if rq_actionType rq \<noteq> ''EXIT'' \<and> rq_actionType rq \<noteq> ''ENTRY''
      then (ScanFailure 400 ''Action type must be EXIT or ENTRY'', d)
      else
        (case scan_check e d t user rq of
           None \<Rightarrow> (ScanFailure 500 ''QR code scanning failed'', d)
         | Some (validation, logEntry) \<Rightarrow>
             (case insert_gate_log (le_studentId logEntry) (le_leaveApplicationId logEntry)
                     (le_actionType logEntry) (le_scannedBy logEntry)
                     (le_validationStatus logEntry) (le_validationMessage logEntry)
                     (Some (le_qrCodeData logEntry)) (le_location logEntry) (t_db t) d of
                None \<Rightarrow> (ScanFailure 500 ''QR code scanning failed'', d)
              | Some (logId, d') \<Rightarrow>
                  (let studentDetails =
                         (case le_studentId logEntry of
                            None \<Rightarrow> None
                          | Some s \<Rightarrow>
                              if valid validation \<and> s \<noteq> 0
                              then find (\<lambda>x. s_id x = s) (students d') else None)
                   in (ScanDone (valid validation) (v_message validation)
                         \<lparr> sp_logId = logId, sp_actionType = rq_actionType rq,
                           sp_validationStatus = le_validationStatus logEntry,
                           sp_student = studentDetails,
                           sp_leave = (if valid validation
                                       then map_option (\<lambda>l. (from_date l, to_date l, la_status l))
                                              (v_leave validation)
                                       else None),
                           sp_allowed = valid validation \<rparr>, d')))))"

record manual_request =
  m_collegeId :: string
  m_actionType :: string
  m_reason :: string

datatype manual_response =
    ManualFailure nat string
  | ManualDone string nat string string

text \<open>\<open>manualEntryExit\<close>: a row without application and without payload, status MANUAL.\<close>

definition manualEntryExit :: "int \<Rightarrow> nat \<Rightarrow> manual_request \<Rightarrow> db \<Rightarrow> manual_response \<times> db" where
  "manualEntryExit ts user rq d =
     (if m_collegeId rq = [] \<or> m_actionType rq = [] \<or> m_reason rq = []
      then (ManualFailure 400 ''College ID, action type, and reason are required'', d)
      else
        (case find (\<lambda>s. college_id s = m_collegeId rq) (students d) of
           None \<Rightarrow> (ManualFailure 404 ''Student not found'', d)
         | Some s \<Rightarrow>
             (case insert_gate_log (Some (s_id s)) None (m_actionType rq) user MANUAL
                     (''Manual '' @ m_actionType rq @ '': '' @ m_reason rq) None ''Main Gate'' ts d of
                None \<Rightarrow> (ManualFailure 500 ''Failed to record manual entry/exit'', d)
              | Some (logId, d') \<Rightarrow>
                  (ManualDone (''Manual '' @ m_actionType rq @ '' recorded successfully'')
                     logId (student_name s) (m_actionType rq), d'))))"

section \<open>Presence (getStudentsOutside)\<close>




section \<open>Leave lifecycle (controllers/leaveController.js)\<close>

text \<open>
  A handler's answer: the HTTP status with the message, and the data of a success. The
  rows a handler writes to the notifications table are left out.
\<close>

datatype 'a reply =
    Failure nat string
  | Success nat string 'a

definition show_int :: "int \<Rightarrow> string" where
  "show_int i = (if i < 0 then ''-'' @ show_nat (nat (- i)) else show_nat (nat i))"

text \<open>\<open>Math.ceil(x / day)\<close> for integers \<open>x\<close>.\<close>

definition ceil_days :: "int \<Rightarrow> int" where
  "ceil_days x = - ((- x) div day_ms)"

text \<open>\<open>daysBetween\<close> of helpers.js.\<close>

definition daysBetween :: "int \<Rightarrow> int \<Rightarrow> int" where
  "daysBetween startDate endDate =
     ceil_days (abs (date_instant endDate - date_instant startDate)) + 1"

definition active_status :: "leave_status \<Rightarrow> bool" where
  "active_status s = (s = PENDING \<or> s = APPROVED_DW \<or> s = APPROVED_PRINCIPAL)"

text \<open>
  The \<open>WHERE\<close> clause of the overlap query of \<open>applyLeave\<close>, with \<open>x BETWEEN a AND b\<close>
  written out as \<open>a \<le> x \<and> x \<le> b\<close>.
\<close>

definition overlap_clause :: "nat \<Rightarrow> int \<Rightarrow> int \<Rightarrow> leave_application \<Rightarrow> bool" where
  "overlap_clause sid fromDate toDate la =
     (la_student_id la = sid \<and> active_status (la_status la) \<and>
      ((from_date la \<le> fromDate \<and> fromDate \<le> to_date la)
       \<or> (from_date la \<le> toDate \<and> toDate \<le> to_date la)
       \<or> (fromDate \<le> from_date la \<and> from_date la \<le> toDate)))"

record apply_request =
  al_fromDate :: "int option"
  al_toDate :: "int option"
  al_reason :: string
  al_destination :: "string option"
  al_contactDuringLeave :: "string option"
  al_leaveType :: string

record apply_payload =
  ap_leaveId :: nat
  ap_duration :: int
  ap_requiresPrincipalApproval :: bool

text \<open>\<open>applyLeave\<close> at instant \<open>now\<close> for the authenticated user \<open>user\<close>.\<close>

definition applyLeave ::
  "env \<Rightarrow> int \<Rightarrow> nat \<Rightarrow> apply_request \<Rightarrow> db \<Rightarrow> apply_payload reply \<times> db" where
  "applyLeave e now user rq d =
     (case find (\<lambda>s. s_user_id s = user) (students d) of
        None \<Rightarrow> (Failure 404 ''Student profile not found'', d)
      | Some student \<Rightarrow>
          (case (al_fromDate rq, al_toDate rq) of
             (Some fromDate, Some toDate) \<Rightarrow>
               if al_reason rq = []
               then (Failure 400 ''From date, to date, and reason are required'', d)
               else if date_instant toDate < date_instant fromDate
               then (Failure 400 ''To date must be after from date'', d)
               else
                 (let minAdvanceDays = parseInt_or (MIN_ADVANCE_DAYS e) 2;
                      today = (now div day_ms) * day_ms;
                      daysUntilLeave = ceil_days (date_instant fromDate - today)
                  in if daysUntilLeave < minAdvanceDays
                     then (Failure 400 (''Leave must be applied at least '' @ show_int minAdvanceDays
                                          @ '' days in advance''), d)
                     else if find (overlap_clause (s_id student) fromDate toDate)
                               (leave_applications d) \<noteq> None
                     then (Failure 409 ''You have an overlapping leave application'', d)
                     else
                       (let duration = daysBetween fromDate toDate;
                            leaveId = fresh_id (map la_id (leave_applications d));
                            row = \<lparr> la_id = leaveId, la_student_id = s_id student,
                                    leave_type = (if al_leaveType rq = [] then ''REGULAR''
                                                  else al_leaveType rq),
                                    from_date = fromDate, to_date = toDate, reason = al_reason rq,
                                    destination = al_destination rq,
                                    contact_during_leave = al_contactDuringLeave rq,
                                    la_status = PENDING, approved_by_dw = None,
                                    approved_by_principal = None, dw_remarks = None,
                                    principal_remarks = None, dw_approved_at = None,
                                    principal_approved_at = None, qr_code_generated = False,
                                    qr_code_data = None, qr_code_expires_at = None \<rparr>
                        in (Success 201 ''Leave application submitted successfully''
                              \<lparr> ap_leaveId = leaveId, ap_duration = duration,
                                ap_requiresPrincipalApproval =
                                  (duration > parseInt_or (MAX_REGULAR_LEAVE_DAYS e) 15) \<rparr>,
                            d\<lparr> leave_applications := leave_applications d @ [row] \<rparr>)))
           | _ \<Rightarrow> (Failure 400 ''From date, to date, and reason are required'', d)))"

definition approved :: "leave_status \<Rightarrow> bool" where
  "approved s = (s = APPROVED_DW \<or> s = APPROVED_PRINCIPAL)"

record qr_payload =
  qp_qrCode :: string
  qp_validFrom :: "int option"
  qp_fromDate :: int
  qp_toDate :: int
  qp_status :: leave_status

text \<open>\<open>UPDATE leave_applications SET ... WHERE id = ?\<close>.\<close>

definition update_leave ::
  "nat \<Rightarrow> (leave_application \<Rightarrow> leave_application) \<Rightarrow> db \<Rightarrow> db" where
  "update_leave i f d =
     d\<lparr> leave_applications := map (\<lambda>la. if la_id la = i then f la else la) (leave_applications d) \<rparr>"

text \<open>
  \<open>getLeaveQRCode\<close>. A missing student profile makes \<open>student.id\<close> throw, and a missing
  payload makes the image generation throw: both end in status 500.
\<close>

definition getLeaveQRCode :: "env \<Rightarrow> nat \<Rightarrow> nat \<Rightarrow> db \<Rightarrow> qr_payload reply \<times> db" where
  "getLeaveQRCode e user leaveId d =
     (case find (\<lambda>s. s_user_id s = user) (students d) of
        None \<Rightarrow> (Failure 500 ''Failed to generate QR code'', d)
      | Some student \<Rightarrow>
          (case find (\<lambda>la. la_id la = leaveId \<and> la_student_id la = s_id student)
                  (leave_applications d) of
             None \<Rightarrow> (Failure 404 ''Leave application not found'', d)
           | Some leave \<Rightarrow>
               if la_status leave \<noteq> APPROVED_DW \<and> la_status leave \<noteq> APPROVED_PRINCIPAL
               then (Failure 400 ''QR code only available for approved leaves'', d)
               else
                 (let validityHours = parseInt_or (QR_CODE_VALIDITY_HOURS e) 2;
                      qrValidFrom = date_instant (from_date leave) - validityHours * 60 * 60 * 1000;
                      qrData = generateQRCodeData e leave student;
                      (leave', d') =
                        (if \<not> qr_code_generated leave
                         then (leave\<lparr> qr_code_data := Some qrData,
                                      qr_code_expires_at := Some qrValidFrom \<rparr>,
                               update_leave leaveId
                                 (\<lambda>la. la\<lparr> qr_code_data := Some qrData, qr_code_generated := True,
                                            qr_code_expires_at := Some qrValidFrom \<rparr>) d)
                         else (leave, d))
                  in case qr_code_data leave' of
                       None \<Rightarrow> (Failure 500 ''Failed to generate QR code'', d')
                     | Some tok \<Rightarrow>
                         (Success 200 []
                            \<lparr> qp_qrCode = toDataURL e tok, qp_validFrom = qr_code_expires_at leave',
                              qp_fromDate = from_date leave', qp_toDate = to_date leave',
                              qp_status = la_status leave' \<rparr>, d'))))"

record decide_request =
  dr_action :: string
  dr_remarks :: "string option"

text \<open>
  The pending application with the given id, joined with its student; the deputy
  warden's query also computes \<open>DATEDIFF(to_date, from_date) + 1\<close>.
\<close>

definition find_pending :: "db \<Rightarrow> nat \<Rightarrow> leave_application option" where
  "find_pending d i =
     find (\<lambda>la. la_id la = i \<and> la_status la = PENDING \<and>
                 find (\<lambda>s. s_id s = la_student_id la) (students d) \<noteq> None)
       (leave_applications d)"

definition duration_days :: "leave_application \<Rightarrow> int" where
  "duration_days la = to_date la - from_date la + 1"

definition action_ok :: "string \<Rightarrow> bool" where
  "action_ok a = (a = ''approve'' \<or> a = ''reject'')"

definition decided_message :: "string \<Rightarrow> string" where
  "decided_message a =
     ''Leave '' @ (if a = ''approve'' then ''approved'' else ''rejected'') @ '' successfully''"

text \<open>
  \<open>processLeaveByDW\<close> at instant \<open>now\<close>. A user without staff row makes \<open>staff.id\<close>
  throw inside the transaction, which is rolled back.
\<close>

definition processLeaveByDW ::
  "env \<Rightarrow> int \<Rightarrow> nat \<Rightarrow> nat \<Rightarrow> decide_request \<Rightarrow> db \<Rightarrow> unit reply \<times> db" where
  "processLeaveByDW e now user leaveId rq d =
     (if \<not> action_ok (dr_action rq)
      then (Failure 400 ''Valid action (approve/reject) is required'', d)
      else
        (case find_pending d leaveId of
           None \<Rightarrow> (Failure 404 ''Leave application not found or already processed'', d)
         | Some leave \<Rightarrow>
             (let maxDays = parseInt_or (MAX_REGULAR_LEAVE_DAYS e) 15
              in if duration_days leave > maxDays
                 then (Failure 400 (''Leave duration exceeds '' @ show_int maxDays
                                      @ '' days. Principal approval required.''), d)
                 else
                   (case find (\<lambda>s. st_user_id s = user) (staff_rows d) of
                      None \<Rightarrow> (Failure 500 ''Failed to process leave application'', d)
                    | Some staff \<Rightarrow>
                        (let newStatus = (if dr_action rq = ''approve'' then APPROVED_DW else REJECTED)
                         in (Success 200 (decided_message (dr_action rq)) (),
                             update_leave leaveId
                               (\<lambda>la. la\<lparr> la_status := newStatus, approved_by_dw := Some (st_id staff),
                                          dw_remarks := dr_remarks rq, dw_approved_at := Some now \<rparr>)
                               d))))))"

text \<open>\<open>processLeaveByPrincipal\<close>: the same steps without the test of the duration.\<close>

definition processLeaveByPrincipal ::
  "env \<Rightarrow> int \<Rightarrow> nat \<Rightarrow> nat \<Rightarrow> decide_request \<Rightarrow> db \<Rightarrow> unit reply \<times> db" where
  "processLeaveByPrincipal e now user leaveId rq d =
     (if \<not> action_ok (dr_action rq)
      then (Failure 400 ''Valid action (approve/reject) is required'', d)
      else
        (case find_pending d leaveId of
           None \<Rightarrow> (Failure 404 ''Leave application not found or already processed'', d)
         | Some leave \<Rightarrow>
             (case find (\<lambda>s. st_user_id s = user) (staff_rows d) of
                None \<Rightarrow> (Failure 500 ''Failed to process leave application'', d)
              | Some staff \<Rightarrow>
                  (let newStatus = (if dr_action rq = ''approve'' then APPROVED_PRINCIPAL
                                    else REJECTED)
                   in (Success 200 (decided_message (dr_action rq)) (),
                       update_leave leaveId
                         (\<lambda>la. la\<lparr> la_status := newStatus,
                                    approved_by_principal := Some (st_id staff),
                                    principal_remarks := dr_remarks rq,
                                    principal_approved_at := Some now \<rparr>)
                         d)))))"

record extension_request =
  er_leaveId :: nat
  er_extendedToDate :: int
  er_reason :: string

text \<open>
  \<open>requestEmergencyExtension\<close>: the application must belong to a child of the
  requesting user (\<open>students.parent_id\<close> holds the parent's user id).
\<close>

definition requestEmergencyExtension ::
  "nat \<Rightarrow> extension_request \<Rightarrow> db \<Rightarrow> nat reply \<times> db" where
  "requestEmergencyExtension user rq d =
     (case find (\<lambda>la. la_id la = er_leaveId rq \<and>
                       find (\<lambda>s. s_id s = la_student_id la \<and> parent_id s = Some user) (students d)
                         \<noteq> None)
             (leave_applications d) of
        None \<Rightarrow> (Failure 404 ''Leave application not found'', d)
      | Some leave \<Rightarrow>
          if la_status leave \<noteq> APPROVED_DW \<and> la_status leave \<noteq> APPROVED_PRINCIPAL
          then (Failure 400 ''Can only extend approved leaves'', d)
          else if date_instant (er_extendedToDate rq) \<le> date_instant (to_date leave)
          then (Failure 400 ''Extended date must be after current end date'', d)
          else
            (case find (\<lambda>p. p_user_id p = user) (parents d) of
               None \<Rightarrow> (Failure 500 ''Failed to request extension'', d)
             | Some parent \<Rightarrow>
                 (let i = fresh_id (map ee_id (emergency_extensions d))
                  in (Success 201 ''Emergency extension requested successfully'' i,
                      d\<lparr> emergency_extensions := emergency_extensions d @
                           [\<lparr> ee_id = i, ee_leave_application_id = er_leaveId rq,
                              requested_by_parent = p_id parent,
                              extended_to_date = er_extendedToDate rq, ee_reason = er_reason rq,
                              ee_status = EXT_PENDING, ee_approved_by = None, ee_remarks = None,
                              ee_approved_at = None \<rparr>] \<rparr>))))"

text \<open>
  The pending extension with the given id, joined with its application, the
  application's student and the requesting parent.
\<close>

definition find_pending_extension :: "db \<Rightarrow> nat \<Rightarrow> emergency_extension option" where
  "find_pending_extension d i =
     find (\<lambda>x. ee_id x = i \<and> ee_status x = EXT_PENDING \<and>
                find (\<lambda>la. la_id la = ee_leave_application_id x \<and>
                            find (\<lambda>s. s_id s = la_student_id la) (students d) \<noteq> None)
                  (leave_applications d) \<noteq> None \<and>
                find (\<lambda>p. p_id p = requested_by_parent x) (parents d) \<noteq> None)
       (emergency_extensions d)"

definition update_extension ::
  "nat \<Rightarrow> (emergency_extension \<Rightarrow> emergency_extension) \<Rightarrow> db \<Rightarrow> db" where
  "update_extension i f d =
     d\<lparr> emergency_extensions :=
          map (\<lambda>x. if ee_id x = i then f x else x) (emergency_extensions d) \<rparr>"

text \<open>
  \<open>processEmergencyExtension\<close> at instant \<open>now\<close>. The action is not validated: every
  action other than \<open>approve\<close> rejects. Both updates run in one transaction.
\<close>

definition processEmergencyExtension ::
  "int \<Rightarrow> nat \<Rightarrow> nat \<Rightarrow> decide_request \<Rightarrow> db \<Rightarrow> unit reply \<times> db" where
  "processEmergencyExtension now user extensionId rq d =
     (case find_pending_extension d extensionId of
        None \<Rightarrow> (Failure 404 ''Extension request not found or already processed'', d)
      | Some extension \<Rightarrow>
          (case find (\<lambda>s. st_user_id s = user) (staff_rows d) of
             None \<Rightarrow> (Failure 500 ''Failed to process extension'', d)
           | Some staff \<Rightarrow>
               (let newStatus = (if dr_action rq = ''approve'' then EXT_APPROVED else EXT_REJECTED);
                    d1 = update_extension extensionId
                           (\<lambda>x. x\<lparr> ee_status := newStatus, ee_approved_by := Some (st_id staff),
                                    ee_remarks := dr_remarks rq, ee_approved_at := Some now \<rparr>) d;
                    d2 = (if dr_action rq = ''approve''
                          then update_leave (ee_leave_application_id extension)
                                 (\<lambda>la. la\<lparr> to_date := extended_to_date extension \<rparr>) d1
                          else d1)
                in (Success 200 (''Extension '' @ (if dr_action rq = ''approve'' then ''approved''
                                                   else ''rejected'') @ '' successfully'') (),
                    d2))))"

section \<open>Specification predicates, dispatch and fixtures\<close>

text \<open>The overlap test in the words of the specification.\<close>

definition intervals_overlap :: "int \<Rightarrow> int \<Rightarrow> int \<Rightarrow> int \<Rightarrow> bool" where
  "intervals_overlap a_from a_to b_from b_to = (a_from \<le> b_to \<and> b_from \<le> a_to)"

text \<open>
  The handlers that write to the database, as the requests a server run is made of, and
  the state a request leaves behind.
\<close>

datatype request =
    ApplyLeave int nat apply_request
  | GetLeaveQRCode nat nat
  | ProcessLeaveByDW int nat nat decide_request
  | ProcessLeaveByPrincipal int nat nat decide_request
  | RequestEmergencyExtension nat extension_request
  | ProcessEmergencyExtension int nat nat decide_request
  | ScanQRCode times nat scan_request
  | ManualEntryExit int nat manual_request

fun handle :: "env \<Rightarrow> request \<Rightarrow> db \<Rightarrow> db" where
  "handle e (ApplyLeave now user rq) d = snd (applyLeave e now user rq d)"
| "handle e (GetLeaveQRCode user leaveId) d = snd (getLeaveQRCode e user leaveId d)"
| "handle e (ProcessLeaveByDW now user leaveId rq) d = snd (processLeaveByDW e now user leaveId rq d)"
| "handle e (ProcessLeaveByPrincipal now user leaveId rq) d =
     snd (processLeaveByPrincipal e now user leaveId rq d)"
| "handle e (RequestEmergencyExtension user rq) d = snd (requestEmergencyExtension user rq d)"
| "handle e (ProcessEmergencyExtension now user extensionId rq) d =
     snd (processEmergencyExtension now user extensionId rq d)"
| "handle e (ScanQRCode t user rq) d = snd (scanQRCode e t user rq d)"
| "handle e (ManualEntryExit ts user rq) d = snd (manualEntryExit ts user rq d)"

definition date_ranges :: "db \<Rightarrow> (int \<times> int) list" where
  "date_ranges d = map (\<lambda>la. (from_date la, to_date la)) (leave_applications d)"

text \<open>A small configuration and database used to evaluate the handlers.\<close>

definition demo_env_base :: env where
  "demo_env_base =
     \<lparr> JWT_SECRET = ''gate-secret'', MAX_REGULAR_LEAVE_DAYS = None, MIN_ADVANCE_DAYS = None,
       QR_CODE_VALIDITY_HOURS = None, sha256_hex = (\<lambda>s. s), JSON_parse = (\<lambda>s. None),
       toJSON = (\<lambda>t. if t = date_instant 20000 then ''2024-10-04T00:00:00.000Z''
                       else if t = date_instant 20001 then ''2024-10-05T00:00:00.000Z''
                       else if t = date_instant 20002 then ''2024-10-06T00:00:00.000Z''
                       else show_int t),
       toLocaleString = show_int, toDataURL = (\<lambda>s. ''data:image/png;base64,'' @ s) \<rparr>"

definition demo_student :: student where
  "demo_student =
     \<lparr> s_id = 1, s_user_id = 11, college_id = ''CS001'', student_name = ''Asha'',
       department = None, hostel_block = None, room_number = None, photo_url = None,
       parent_id = Some 21 \<rparr>"

definition demo_leave :: "nat \<Rightarrow> int \<Rightarrow> int \<Rightarrow> leave_status \<Rightarrow> leave_application" where
  "demo_leave i f t s =
     \<lparr> la_id = i, la_student_id = 1, leave_type = ''REGULAR'', from_date = f, to_date = t,
       reason = ''home'', destination = None, contact_during_leave = None, la_status = s,
       approved_by_dw = None, approved_by_principal = None, dw_remarks = None,
       principal_remarks = None, dw_approved_at = None, principal_approved_at = None,
       qr_code_generated = False, qr_code_data = None, qr_code_expires_at = None \<rparr>"

definition demo_db :: "leave_application list \<Rightarrow> db" where
  "demo_db las =
     \<lparr> students = [demo_student],
       staff_rows = [\<lparr> st_id = 1, st_user_id = 31 \<rparr>, \<lparr> st_id = 2, st_user_id = 32 \<rparr>],
       parents = [\<lparr> p_id = 1, p_user_id = 21 \<rparr>],
       leave_applications = las, emergency_extensions = [], gate_logs = [] \<rparr>"



text \<open>
  The states a server run reaches from a database with an empty gate log, and the
  property of the gate log that every request keeps: a row that is attributed to an
  application and records an EXIT has status VALID.
\<close>

inductive reachable :: "env \<Rightarrow> db \<Rightarrow> bool" for e :: env where
  start: "gate_logs d = [] \<Longrightarrow> reachable e d"
| request: "reachable e d \<Longrightarrow> reachable e (handle e r d)"

definition exits_valid :: "gate_log list \<Rightarrow> bool" where
  "exits_valid logs =
     (\<forall>g \<in> set logs. gl_leave_application_id g \<noteq> None \<and> action_type g = ''EXIT''
                        \<longrightarrow> validation_status g = VALID)"

text \<open>
  The token of an application of the demo student, and a configuration whose
  \<open>JSON.parse\<close> reads back the tokens of the given applications.
\<close>

definition demo_token :: "leave_application \<Rightarrow> string" where
  "demo_token la = generateQRCodeData demo_env_base la demo_student"

definition demo_env :: "leave_application list \<Rightarrow> env" where
  "demo_env las =
     demo_env_base\<lparr> JSON_parse :=
       (\<lambda>s. map_option (\<lambda>la. qr_data_of demo_env_base la demo_student)
               (find (\<lambda>la. demo_token la = s) las)) \<rparr>"

definition demo_scan :: "leave_application \<Rightarrow> string \<Rightarrow> scan_request" where
  "demo_scan la act = \<lparr> rq_qrData = demo_token la, rq_actionType = act, rq_location = [] \<rparr>"

definition demo_times :: "int \<Rightarrow> times" where
  "demo_times t = \<lparr> t_now = t, t_today = t, t_db = t \<rparr>"

text \<open>
  An approved leave of the demo student for the days 20000 to 20002, the database that
  holds it, and the gate-log row of a scan of its token by the watchman (user 41).
\<close>

definition demo_la :: leave_application where
  "demo_la = demo_leave 1 20000 20002 APPROVED_DW"

definition demo_row ::
  "nat \<Rightarrow> leave_application \<Rightarrow> string \<Rightarrow> int \<Rightarrow> validation_status \<Rightarrow> string \<Rightarrow> gate_log" where
  "demo_row i la act ts vs msg =
     \<lparr> gl_id = i, gl_student_id = 1, gl_leave_application_id = Some (la_id la),
       action_type = act, scanned_by = 41, scan_timestamp = ts,
       gl_qr_code_data = Some (demo_token la), validation_status = vs,
       validation_message = msg, location = ''Main Gate'' \<rparr>"










section \<open>Properties\<close>

section \<open>Overlap test of applyLeave\<close>

lemma overlap_clause_iff:
  "from_date la \<le> to_date la \<Longrightarrow> F \<le> T \<Longrightarrow>
   overlap_clause sid F T la \<longleftrightarrow>
     (la_student_id la = sid \<and> active_status (la_status la) \<and>
      intervals_overlap (from_date la) (to_date la) F T)"
  by (auto simp: overlap_clause_def intervals_overlap_def)

lemma find_not_None_iff: "find P xs \<noteq> None \<longleftrightarrow> (\<exists>x \<in> set xs. P x)"
  by (auto simp: find_None_iff)

lemma date_instant_less [simp]: "date_instant a < date_instant b \<longleftrightarrow> a < b"
  by (simp add: date_instant_def day_ms_def)

lemma date_instant_le [simp]: "date_instant a \<le> date_instant b \<longleftrightarrow> a \<le> b"
  by (simp add: date_instant_def day_ms_def)

text \<open>
  C6. For a request that passes the earlier checks of \<open>applyLeave\<close> (student profile,
  required fields, range, lead time), on a table whose rows have \<open>from_date \<le> to_date\<close>,
  the handler answers 409 exactly when some application of the same student in status
  PENDING, APPROVED_DW or APPROVED_PRINCIPAL has a closed interval that intersects the
  requested one: the three clauses of the query are equivalent to the overlap predicate.
\<close>

theorem applyLeave_overlap_iff:
  assumes student: "find (\<lambda>s. s_user_id s = user) (students d) = Some student"
    and fields: "al_fromDate rq = Some F" "al_toDate rq = Some T" "al_reason rq \<noteq> []"
    and range: "F \<le> T"
    and lead: "parseInt_or (MIN_ADVANCE_DAYS e) 2
                 \<le> ceil_days (date_instant F - (now div day_ms) * day_ms)"
    and wf: "\<forall>la \<in> set (leave_applications d). from_date la \<le> to_date la"
  shows "applyLeave e now user rq d = (Failure 409 ''You have an overlapping leave application'', d)
         \<longleftrightarrow> (\<exists>la \<in> set (leave_applications d).
                la_student_id la = s_id student \<and>
                la_status la \<in> {PENDING, APPROVED_DW, APPROVED_PRINCIPAL} \<and>
                intervals_overlap (from_date la) (to_date la) F T)"
proof -
  have clause: "(\<exists>la \<in> set (leave_applications d). overlap_clause (s_id student) F T la)
      \<longleftrightarrow> (\<exists>la \<in> set (leave_applications d).
                la_student_id la = s_id student \<and>
                la_status la \<in> {PENDING, APPROVED_DW, APPROVED_PRINCIPAL} \<and>
                intervals_overlap (from_date la) (to_date la) F T)"
    using wf range by (auto simp: overlap_clause_iff active_status_def)
  have "applyLeave e now user rq d = (Failure 409 ''You have an overlapping leave application'', d)
      \<longleftrightarrow> find (overlap_clause (s_id student) F T) (leave_applications d) \<noteq> None"
    using student fields range lead
    by (simp add: applyLeave_def Let_def not_less)
  then show ?thesis
    by (simp only: find_not_None_iff clause)
qed

theorem applyLeave_overlap_iff_witness:
  "applyLeave demo_env_base (date_instant 19990) 11
     \<lparr> al_fromDate = Some 20002, al_toDate = Some 20005, al_reason = ''trip'',
       al_destination = None, al_contactDuringLeave = None, al_leaveType = [] \<rparr>
     (demo_db [demo_leave 1 20000 20002 PENDING])
   = (Failure 409 ''You have an overlapping leave application'',
      demo_db [demo_leave 1 20000 20002 PENDING])"
  using applyLeave_overlap_iff [of 11 "demo_db [demo_leave 1 20000 20002 PENDING]" demo_student
      "\<lparr> al_fromDate = Some 20002, al_toDate = Some 20005, al_reason = ''trip'',
         al_destination = None, al_contactDuringLeave = None, al_leaveType = [] \<rparr>"
      20002 20005 demo_env_base "date_instant 19990"]
  by (simp add: demo_db_def demo_student_def demo_leave_def demo_env_base_def parseInt_or_def
      ceil_days_def date_instant_def day_ms_def intervals_overlap_def)

section \<open>Extension decisions and the date range\<close>

lemma find_map_pres:
  "(\<And>x. P (g x) = P x) \<Longrightarrow> find P (map g xs) = map_option g (find P xs)"
  by (induction xs) auto





lemma date_ranges_update_extension:
  "date_ranges (update_extension i f d) = date_ranges d"
  by (simp add: date_ranges_def update_extension_def)














section \<open>Credential issuance\<close>

lemma find_update_leave:
  assumes "\<And>la. la_id (f la) = la_id la \<and> la_student_id (f la) = la_student_id la"
  shows "find (\<lambda>la. la_id la = i \<and> la_student_id la = s) (leave_applications (update_leave j f d))
         = map_option (\<lambda>la. if la_id la = j then f la else la)
             (find (\<lambda>la. la_id la = i \<and> la_student_id la = s) (leave_applications d))"
  unfolding update_leave_def
  by (simp add: assms find_map_pres)

lemma find_Some_holds: "find P xs = Some x \<Longrightarrow> P x"
  by (auto simp: find_Some_iff)

text \<open>What the first call stores and answers when no credential was cached.\<close>

lemma getLeaveQRCode_first:
  assumes "find (\<lambda>s. s_user_id s = user) (students d) = Some student"
    and "find (\<lambda>la. la_id la = i \<and> la_student_id la = s_id student) (leave_applications d)
           = Some leave"
    and "approved (la_status leave)"
    and "\<not> qr_code_generated leave"
  shows "getLeaveQRCode e user i d =
           (Success 200 []
              \<lparr> qp_qrCode = toDataURL e (generateQRCodeData e leave student),
                qp_validFrom = Some (date_instant (from_date leave)
                                       - parseInt_or (QR_CODE_VALIDITY_HOURS e) 2 * 60 * 60 * 1000),
                qp_fromDate = from_date leave, qp_toDate = to_date leave,
                qp_status = la_status leave \<rparr>,
            update_leave i
              (\<lambda>la. la\<lparr> qr_code_data := Some (generateQRCodeData e leave student),
                         qr_code_generated := True,
                         qr_code_expires_at := Some (date_instant (from_date leave)
                                       - parseInt_or (QR_CODE_VALIDITY_HOURS e) 2 * 60 * 60 * 1000) \<rparr>)
              d)"
  using assms by (auto simp: getLeaveQRCode_def Let_def approved_def)

text \<open>What a call answers when the credential is cached: the stored payload, no write.\<close>

lemma getLeaveQRCode_cached:
  assumes "find (\<lambda>s. s_user_id s = user) (students d) = Some student"
    and "find (\<lambda>la. la_id la = i \<and> la_student_id la = s_id student) (leave_applications d)
           = Some leave"
    and "approved (la_status leave)"
    and "qr_code_generated leave"
    and "qr_code_data leave = Some tok"
  shows "getLeaveQRCode e user i d =
           (Success 200 []
              \<lparr> qp_qrCode = toDataURL e tok, qp_validFrom = qr_code_expires_at leave,
                qp_fromDate = from_date leave, qp_toDate = to_date leave,
                qp_status = la_status leave \<rparr>, d)"
  using assms by (auto simp: getLeaveQRCode_def Let_def approved_def)

lemma getLeaveQRCode_Success_cases:
  assumes "getLeaveQRCode e user i d = (Success c m p, d')"
  obtains student leave where
    "find (\<lambda>s. s_user_id s = user) (students d) = Some student"
    "find (\<lambda>la. la_id la = i \<and> la_student_id la = s_id student) (leave_applications d)
       = Some leave"
    "approved (la_status leave)"
  using assms
  by (auto simp: getLeaveQRCode_def Let_def approved_def split: option.splits if_splits prod.splits)

text \<open>
  C7. A successful \<open>getLeaveQRCode\<close> followed by a second call for the same application
  gives the same answer and writes nothing, whatever the configuration of the second call
  is: the token and its not-valid-before instant are the stored ones. At first issuance
  the instant is local midnight of \<open>from_date\<close> minus the configured hours (default 2),
  and the token is the one \<open>generateQRCodeData\<close> built.
\<close>

theorem getLeaveQRCode_idempotent:
  assumes first: "getLeaveQRCode e user i d = (Success c m p, d')"
    and img: "toDataURL e2 = toDataURL e"
  shows "getLeaveQRCode e2 user i d' = (Success c m p, d')
       \<and> (\<exists>student leave leave' tok.
             find (\<lambda>s. s_user_id s = user) (students d) = Some student
           \<and> find (\<lambda>la. la_id la = i \<and> la_student_id la = s_id student) (leave_applications d)
               = Some leave
           \<and> find (\<lambda>la. la_id la = i \<and> la_student_id la = s_id student) (leave_applications d')
               = Some leave'
           \<and> qr_code_data leave' = Some tok \<and> qp_qrCode p = toDataURL e tok
           \<and> qp_validFrom p = qr_code_expires_at leave'
           \<and> (\<not> qr_code_generated leave \<longrightarrow>
                 tok = generateQRCodeData e leave student
               \<and> qr_code_expires_at leave' =
                   Some (date_instant (from_date leave)
                           - parseInt_or (QR_CODE_VALIDITY_HOURS e) 2 * 60 * 60 * 1000)))"
proof -
  from first obtain student leave where
    s: "find (\<lambda>s. s_user_id s = user) (students d) = Some student"
    and l: "find (\<lambda>la. la_id la = i \<and> la_student_id la = s_id student) (leave_applications d)
       = Some leave"
    and a: "approved (la_status leave)"
    by (rule getLeaveQRCode_Success_cases)
  show ?thesis
  proof (cases "qr_code_generated leave")
    case True
    from first s l a True obtain tok where tok: "qr_code_data leave = Some tok"
      by (cases "qr_code_data leave") (auto simp: getLeaveQRCode_def Let_def approved_def)
    from first have eq: "c = 200" "m = []" "d' = d"
        "p = \<lparr> qp_qrCode = toDataURL e tok, qp_validFrom = qr_code_expires_at leave,
               qp_fromDate = from_date leave, qp_toDate = to_date leave,
               qp_status = la_status leave \<rparr>"
      by (simp_all add: getLeaveQRCode_cached [OF s l a True tok])
    have "getLeaveQRCode e2 user i d' = (Success c m p, d')"
      unfolding eq by (simp add: getLeaveQRCode_cached [OF s l a True tok] img)
    moreover have "qp_qrCode p = toDataURL e tok" "qp_validFrom p = qr_code_expires_at leave"
      by (simp_all add: eq)
    ultimately show ?thesis using s l tok True eq(3) by auto
  next
    case False
    let ?tok = "generateQRCodeData e leave student"
    let ?vf = "date_instant (from_date leave)
                 - parseInt_or (QR_CODE_VALIDITY_HOURS e) 2 * 60 * 60 * 1000"
    let ?f = "\<lambda>la. la\<lparr> qr_code_data := Some ?tok, qr_code_generated := True,
                          qr_code_expires_at := Some ?vf \<rparr>"
    from first have eq: "c = 200" "m = []" "d' = update_leave i ?f d"
        "p = \<lparr> qp_qrCode = toDataURL e ?tok, qp_validFrom = Some ?vf,
               qp_fromDate = from_date leave, qp_toDate = to_date leave,
               qp_status = la_status leave \<rparr>"
      by (simp_all add: getLeaveQRCode_first [OF s l a False])
    have id: "la_id leave = i" using find_Some_holds [OF l] by simp
    have s': "find (\<lambda>s. s_user_id s = user) (students d') = Some student"
      using s by (simp add: eq update_leave_def)
    have l': "find (\<lambda>la. la_id la = i \<and> la_student_id la = s_id student) (leave_applications d')
                = Some (?f leave)"
      unfolding eq(3) by (subst find_update_leave) (simp_all add: l id)
    have second: "getLeaveQRCode e2 user i d' = (Success c m p, d')"
      unfolding eq(1,2,4)
      using a by (subst getLeaveQRCode_cached [OF s' l', where tok = ?tok]) (simp_all add: img)
    have "qp_qrCode p = toDataURL e ?tok" "qp_validFrom p = qr_code_expires_at (?f leave)"
      by (simp_all add: eq)
    with second s l l' show ?thesis by auto
  qed
qed

theorem getLeaveQRCode_idempotent_witness:
  "\<exists>p d'. getLeaveQRCode demo_env_base 11 1 (demo_db [demo_leave 1 20000 20002 APPROVED_DW])
             = (Success 200 [] p, d')
         \<and> getLeaveQRCode demo_env_base 11 1 d' = (Success 200 [] p, d')
         \<and> qp_validFrom p = Some (date_instant 20000 - 7200000)"
proof -
  let ?d = "demo_db [demo_leave 1 20000 20002 APPROVED_DW]"
  have s: "find (\<lambda>s. s_user_id s = 11) (students ?d) = Some demo_student"
    by (simp add: demo_db_def demo_student_def)
  have l: "find (\<lambda>la. la_id la = 1 \<and> la_student_id la = s_id demo_student) (leave_applications ?d)
             = Some (demo_leave 1 20000 20002 APPROVED_DW)"
    by (simp add: demo_db_def demo_student_def demo_leave_def)
  have a: "approved (la_status (demo_leave 1 20000 20002 APPROVED_DW))"
    by (simp add: approved_def demo_leave_def)
  have g: "\<not> qr_code_generated (demo_leave 1 20000 20002 APPROVED_DW)"
    by (simp add: demo_leave_def)
  note first = getLeaveQRCode_first [OF s l a g, of demo_env_base]
  note again = getLeaveQRCode_idempotent [OF first refl, THEN conjunct1]
  have "parseInt_or (QR_CODE_VALIDITY_HOURS demo_env_base) 2 * 60 * 60 * 1000 = 7200000"
    by (simp add: parseInt_or_def demo_env_base_def)
  moreover have "from_date (demo_leave 1 20000 20002 APPROVED_DW) = 20000"
    by (simp add: demo_leave_def)
  ultimately show ?thesis
    using first again by simp
qed

section \<open>Routing of decisions\<close>

text \<open>
  The deputy warden's handler refuses a pending application longer than the threshold
  and leaves it as it is.
\<close>

lemma processLeaveByDW_wrong_tier:
  assumes "action_ok (dr_action rq)"
    and "find_pending d i = Some leave"
    and "duration_days leave > parseInt_or (MAX_REGULAR_LEAVE_DAYS e) 15"
  shows "processLeaveByDW e now user i rq d =
           (Failure 400 (''Leave duration exceeds '' @ show_int (parseInt_or (MAX_REGULAR_LEAVE_DAYS e) 15)
                           @ '' days. Principal approval required.''), d)"
  using assms by (simp add: processLeaveByDW_def Let_def)

text \<open>
  The principal's handler decides every pending application it is given, whatever its
  duration.
\<close>

lemma processLeaveByPrincipal_any_duration:
  assumes "action_ok (dr_action rq)"
    and "find_pending d i = Some leave"
    and "find (\<lambda>s. st_user_id s = user) (staff_rows d) = Some s"
  shows "processLeaveByPrincipal e now user i rq d =
           (Success 200 (decided_message (dr_action rq)) (),
            update_leave i
              (\<lambda>la. la\<lparr> la_status := (if dr_action rq = ''approve'' then APPROVED_PRINCIPAL
                                         else REJECTED),
                         approved_by_principal := Some (st_id s),
                         principal_remarks := dr_remarks rq,
                         principal_approved_at := Some now \<rparr>) d)"
  using assms by (simp add: processLeaveByPrincipal_def Let_def)

text \<open>
  C2. A pending application of three days, threshold 15: the principal's approval is
  accepted and the application becomes APPROVED_PRINCIPAL, where the specification has
  the attempt refused and the application left PENDING.
\<close>

theorem processLeaveByPrincipal_short_leave:
  "duration_days (demo_leave 1 20000 20002 PENDING) = 3
   \<and> parseInt_or (MAX_REGULAR_LEAVE_DAYS demo_env_base) 15 = 15
   \<and> processLeaveByPrincipal demo_env_base 5 32 1 \<lparr> dr_action = ''approve'', dr_remarks = None \<rparr>
       (demo_db [demo_leave 1 20000 20002 PENDING])
     = (Success 200 ''Leave approved successfully'' (),
        demo_db [(demo_leave 1 20000 20002 APPROVED_PRINCIPAL)
                   \<lparr> approved_by_principal := Some 2, principal_approved_at := Some 5 \<rparr>])"
  by (simp add: processLeaveByPrincipal_def find_pending_def action_ok_def decided_message_def
      update_leave_def demo_db_def demo_leave_def demo_student_def demo_env_base_def
      duration_days_def parseInt_or_def)

section \<open>Gate scans\<close>

lemma later_row_cases: "later_row x best = x \<or> later_row x best = best"
  by (simp add: later_row_def)

lemma fold_later_row_in: "fold later_row gs g \<in> set (g # gs)"
proof (induction gs arbitrary: g)
  case Nil
  then show ?case by simp
next
  case (Cons a gs)
  from Cons.IH [of "later_row a g"] later_row_cases [of a g]
  show ?case by auto
qed

lemma fold_later_row_ge: "scan_timestamp g \<le> scan_timestamp (fold later_row gs g)"
proof (induction gs arbitrary: g)
  case Nil
  then show ?case by simp
next
  case (Cons a gs)
  have "scan_timestamp g \<le> scan_timestamp (later_row a g)"
    by (simp add: later_row_def)
  with Cons.IH [of "later_row a g"] show ?case by simp
qed

lemma fold_later_row_max:
  "x \<in> set (g # gs) \<Longrightarrow> scan_timestamp x \<le> scan_timestamp (fold later_row gs g)"
proof (induction gs arbitrary: g)
  case Nil
  then show ?case by simp
next
  case (Cons a gs)
  show ?case
  proof (cases "x \<in> set (later_row a g # gs)")
    case True
    with Cons.IH [of "later_row a g"] show ?thesis by simp
  next
    case False
    with Cons.prems later_row_cases [of a g] have "x = a \<or> x = g" by auto
    moreover have "scan_timestamp a \<le> scan_timestamp (later_row a g)"
      "scan_timestamp g \<le> scan_timestamp (later_row a g)"
      by (simp_all add: later_row_def)
    moreover note fold_later_row_ge [of "later_row a g" gs]
    ultimately show ?thesis by auto
  qed
qed

text \<open>The row \<open>lastLog\<close> returns is a row of the pair, and no row of the pair is later.\<close>

lemma lastLog_Some:
  assumes "lastLog logs s l = Some g"
  shows "g \<in> set logs" "gl_student_id g = s" "gl_leave_application_id g = Some l"
    "\<And>x. x \<in> set logs \<Longrightarrow> gl_student_id x = s \<Longrightarrow> gl_leave_application_id x = Some l
       \<Longrightarrow> scan_timestamp x \<le> scan_timestamp g"
proof -
  let ?P = "\<lambda>g. gl_student_id g = s \<and> gl_leave_application_id g = Some l"
  from assms obtain a gs where f: "filter ?P logs = a # gs" and g: "g = fold later_row gs a"
    by (auto simp: lastLog_def split: list.splits)
  have "g \<in> set (filter ?P logs)"
    unfolding f g by (rule fold_later_row_in)
  then show "g \<in> set logs" "gl_student_id g = s" "gl_leave_application_id g = Some l"
    by simp_all
  fix x
  assume "x \<in> set logs" "gl_student_id x = s" "gl_leave_application_id x = Some l"
  then have "x \<in> set (filter ?P logs)" by simp
  then show "scan_timestamp x \<le> scan_timestamp g"
    unfolding f g by (rule fold_later_row_max)
qed

lemma lastLog_None:
  "lastLog logs s l = None \<longleftrightarrow>
     \<not> (\<exists>x \<in> set logs. gl_student_id x = s \<and> gl_leave_application_id x = Some l)"
proof -
  have "lastLog logs s l = None \<longleftrightarrow>
          filter (\<lambda>g. gl_student_id g = s \<and> gl_leave_application_id g = Some l) logs = []"
    by (simp add: lastLog_def split: list.splits)
  then show ?thesis
    by (simp add: filter_empty_conv)
qed

text \<open>A successful validation comes with the parsed payload and the leave it names.\<close>

lemma validateQRCode_valid:
  assumes "valid (validateQRCode e d now qr)"
  obtains dat leave where "JSON_parse e qr = Some dat"
    "q_hash dat = generateHash e (q_leaveId dat) (q_studentId dat) (q_fromDate dat)"
    "find_leave_of_student d (q_leaveId dat) (q_studentId dat) = Some leave"
    "approved (la_status leave)"
    "now \<le> end_of_day (to_date leave)"
    "validateQRCode e d now qr = \<lparr> valid = True, v_message = ''Valid QR code'', v_leave = Some leave \<rparr>"
  using assms
  by (auto simp: validateQRCode_def Let_def approved_def split: option.splits if_splits)

text \<open>The log entry of a scan whose validation fails.\<close>

lemma scan_check_invalid:
  assumes "\<not> valid (validateQRCode e d (t_now t) (rq_qrData rq))"
  shows "scan_check e d t user rq =
           Some (validateQRCode e d (t_now t) (rq_qrData rq),
                 \<lparr> le_studentId = None, le_leaveApplicationId = None,
                   le_actionType = rq_actionType rq, le_scannedBy = user,
                   le_qrCodeData = rq_qrData rq, le_validationStatus = INVALID,
                   le_validationMessage = v_message (validateQRCode e d (t_now t) (rq_qrData rq)),
                   le_location = (if rq_location rq = [] then ''Main Gate'' else rq_location rq) \<rparr>)"
  using assms by (simp add: scan_check_def Let_def)

text \<open>The log entry of a scan whose validation succeeds.\<close>

lemma scan_check_valid:
  assumes v: "validateQRCode e d (t_now t) (rq_qrData rq)
                = \<lparr> valid = True, v_message = ''Valid QR code'', v_leave = Some leave \<rparr>"
    and p: "JSON_parse e (rq_qrData rq) = Some dat"
  shows "\<exists>v' le. scan_check e d t user rq = Some (v', le)
          \<and> le_studentId le = Some (q_studentId dat)
          \<and> le_leaveApplicationId le = Some (q_leaveId dat)
          \<and> le_actionType le = rq_actionType rq
          \<and> le_scannedBy le = user \<and> le_qrCodeData le = rq_qrData rq
          \<and> le_location le = (if rq_location rq = [] then ''Main Gate'' else rq_location rq)
          \<and> v_leave v' = Some leave
          \<and> (valid v' \<longleftrightarrow> le_validationStatus le = VALID)
          \<and> le_validationMessage le = v_message v'
          \<and> (rq_actionType rq \<noteq> ''ENTRY'' \<longrightarrow> valid v')
          \<and> (rq_actionType rq = ''ENTRY'' \<longrightarrow>
                (case lastLog (gate_logs d) (q_studentId dat) (q_leaveId dat) of
                   None \<Rightarrow> \<not> valid v' \<and> le_validationStatus le = INVALID \<and> v_message v' = no_exit_message
                 | Some g \<Rightarrow>
                     if action_type g \<noteq> ''EXIT''
                     then \<not> valid v' \<and> le_validationStatus le = INVALID \<and> v_message v' = no_exit_message
                     else if t_today t > end_of_day (to_date leave)
                     then \<not> valid v' \<and> le_validationStatus le = EXPIRED
                          \<and> v_message v' = ''Leave period expired''
                     else valid v'))"
  by (simp add: scan_check_def Let_def v p split: option.splits)

text \<open>The insert succeeds exactly when the row has a student, and then appends one row.\<close>

lemma insert_gate_log_Some:
  "insert_gate_log (Some s) lid act u vs msg qr loc ts d =
     Some (fresh_id (map gl_id (gate_logs d)),
           d\<lparr> gate_logs := gate_logs d @
                [\<lparr> gl_id = fresh_id (map gl_id (gate_logs d)), gl_student_id = s,
                   gl_leave_application_id = lid, action_type = act, scanned_by = u,
                   scan_timestamp = ts, gl_qr_code_data = qr, validation_status = vs,
                   validation_message = msg, location = loc \<rparr>] \<rparr>)"
  by (simp add: insert_gate_log_def Let_def)

lemma insert_gate_log_None [simp]:
  "insert_gate_log None lid act u vs msg qr loc ts d = None"
  by (simp add: insert_gate_log_def)

text \<open>
  A well-formed scan whose validation fails: the insert is refused, the handler answers
  500 and the database is as before.
\<close>

lemma scanQRCode_invalid:
  assumes "rq_qrData rq \<noteq> []" "rq_actionType rq = ''EXIT'' \<or> rq_actionType rq = ''ENTRY''"
    and "\<not> valid (validateQRCode e d (t_now t) (rq_qrData rq))"
  shows "scanQRCode e t user rq d = (ScanFailure 500 ''QR code scanning failed'', d)"
  using assms by (auto simp: scanQRCode_def scan_check_invalid)

text \<open>The answer and the appended row of a well-formed scan, from its log entry.\<close>

lemma scanQRCode_logged:
  assumes "rq_qrData rq \<noteq> []" "rq_actionType rq = ''EXIT'' \<or> rq_actionType rq = ''ENTRY''"
    and "scan_check e d t user rq = Some (v', le)"
    and "le_studentId le = Some s"
  shows "\<exists>p. scanQRCode e t user rq d =
           (ScanDone (valid v') (v_message v') p,
            d\<lparr> gate_logs := gate_logs d @ [row_of le s (fresh_id (map gl_id (gate_logs d))) (t_db t)] \<rparr>)
         \<and> sp_logId p = fresh_id (map gl_id (gate_logs d))
         \<and> sp_validationStatus p = le_validationStatus le
         \<and> sp_allowed p = valid v'"
  using assms by (auto simp: scanQRCode_def insert_gate_log_Some Let_def row_of_def)

text \<open>
  A well-formed scan whose validation succeeds: one row is appended, with the student and
  the application of the token, and the answer allows the passage exactly when the row's
  status is VALID.
\<close>

lemma scanQRCode_valid:
  assumes wf: "rq_qrData rq \<noteq> []" "rq_actionType rq = ''EXIT'' \<or> rq_actionType rq = ''ENTRY''"
    and v: "valid (validateQRCode e d (t_now t) (rq_qrData rq))"
  shows "\<exists>ok msg p row dat.
           scanQRCode e t user rq d = (ScanDone ok msg p, d\<lparr> gate_logs := gate_logs d @ [row] \<rparr>)
         \<and> JSON_parse e (rq_qrData rq) = Some dat
         \<and> gl_student_id row = q_studentId dat
         \<and> gl_leave_application_id row = Some (q_leaveId dat)
         \<and> action_type row = rq_actionType rq \<and> scanned_by row = user
         \<and> gl_qr_code_data row = Some (rq_qrData rq)
         \<and> location row = (if rq_location rq = [] then ''Main Gate'' else rq_location rq)
         \<and> scan_timestamp row = t_db t \<and> gl_id row = sp_logId p
         \<and> validation_status row = sp_validationStatus p
         \<and> validation_message row = msg
         \<and> ok = sp_allowed p
         \<and> (sp_allowed p \<longleftrightarrow> validation_status row = VALID)"
proof -
  from v obtain dat leave where p: "JSON_parse e (rq_qrData rq) = Some dat"
    and eq: "validateQRCode e d (t_now t) (rq_qrData rq)
               = \<lparr> valid = True, v_message = ''Valid QR code'', v_leave = Some leave \<rparr>"
    by (rule validateQRCode_valid)
  from scan_check_valid [OF eq p, of user] obtain v' le where
    sc: "scan_check e d t user rq = Some (v', le)"
    and le: "le_studentId le = Some (q_studentId dat)"
      "le_leaveApplicationId le = Some (q_leaveId dat)"
      "le_actionType le = rq_actionType rq" "le_scannedBy le = user"
      "le_qrCodeData le = rq_qrData rq"
      "le_location le = (if rq_location rq = [] then ''Main Gate'' else rq_location rq)"
      "valid v' \<longleftrightarrow> le_validationStatus le = VALID"
      "le_validationMessage le = v_message v'"
    by blast
  from scanQRCode_logged [OF wf sc le(1)] obtain pl where
    r: "scanQRCode e t user rq d =
           (ScanDone (valid v') (v_message v') pl,
            d\<lparr> gate_logs := gate_logs d @
                 [row_of le (q_studentId dat) (fresh_id (map gl_id (gate_logs d))) (t_db t)] \<rparr>)"
    and pl: "sp_logId pl = fresh_id (map gl_id (gate_logs d))"
      "sp_validationStatus pl = le_validationStatus le" "sp_allowed pl = valid v'"
    by blast
  show ?thesis
    apply (rule exI [of _ "valid v'"], rule exI [of _ "v_message v'"], rule exI [of _ pl])
    apply (rule exI [of _ "row_of le (q_studentId dat) (fresh_id (map gl_id (gate_logs d))) (t_db t)"])
    apply (rule exI [of _ dat])
    apply (simp add: r p pl le row_of_def)
    done
qed

text \<open>A scan leaves the gate log as it is or appends one row; an appended EXIT row is VALID.\<close>

lemma scanQRCode_gate_logs:
  "gate_logs (snd (scanQRCode e t user rq d)) = gate_logs d
   \<or> (\<exists>row. gate_logs (snd (scanQRCode e t user rq d)) = gate_logs d @ [row]
            \<and> (action_type row = ''EXIT'' \<longrightarrow> validation_status row = VALID))"
proof (cases "rq_qrData rq \<noteq> [] \<and> (rq_actionType rq = ''EXIT'' \<or> rq_actionType rq = ''ENTRY'')")
  case False
  then show ?thesis by (auto simp: scanQRCode_def)
next
  case wf: True
  show ?thesis
  proof (cases "valid (validateQRCode e d (t_now t) (rq_qrData rq))")
    case False
    with wf show ?thesis by (simp add: scanQRCode_invalid)
  next
    case True
    then obtain dat leave where p: "JSON_parse e (rq_qrData rq) = Some dat"
      and eq: "validateQRCode e d (t_now t) (rq_qrData rq)
                 = \<lparr> valid = True, v_message = ''Valid QR code'', v_leave = Some leave \<rparr>"
      by (rule validateQRCode_valid)
    from scan_check_valid [OF eq p, of user] obtain v' le where
      sc: "scan_check e d t user rq = Some (v', le)"
      and le: "le_studentId le = Some (q_studentId dat)"
        "le_actionType le = rq_actionType rq"
        "valid v' \<longleftrightarrow> le_validationStatus le = VALID"
        "rq_actionType rq \<noteq> ''ENTRY'' \<longrightarrow> valid v'"
      by blast
    from wf have wf': "rq_qrData rq \<noteq> []" "rq_actionType rq = ''EXIT'' \<or> rq_actionType rq = ''ENTRY''"
      by simp_all
    from scanQRCode_logged [OF wf' sc le(1)] obtain pl where
      r: "scanQRCode e t user rq d =
           (ScanDone (valid v') (v_message v') pl,
            d\<lparr> gate_logs := gate_logs d @
                 [row_of le (q_studentId dat) (fresh_id (map gl_id (gate_logs d))) (t_db t)] \<rparr>)"
      by blast
    have "action_type (row_of le (q_studentId dat) (fresh_id (map gl_id (gate_logs d))) (t_db t)) = ''EXIT''
          \<longrightarrow> validation_status (row_of le (q_studentId dat) (fresh_id (map gl_id (gate_logs d))) (t_db t)) = VALID"
      using le by (auto simp: row_of_def)
    then show ?thesis
      by (intro disjI2 exI [of _ "row_of le (q_studentId dat) (fresh_id (map gl_id (gate_logs d))) (t_db t)"])
        (simp add: r)
  qed
qed

lemma manualEntryExit_gate_logs:
  "gate_logs (snd (manualEntryExit ts user rq d)) = gate_logs d
   \<or> (\<exists>row. gate_logs (snd (manualEntryExit ts user rq d)) = gate_logs d @ [row]
            \<and> gl_leave_application_id row = None \<and> validation_status row = MANUAL)"
  by (auto simp: manualEntryExit_def insert_gate_log_Some split: option.splits)

lemma applyLeave_gate_logs: "gate_logs (snd (applyLeave e now user rq d)) = gate_logs d"
  by (auto simp: applyLeave_def Let_def split: option.splits prod.splits)

lemma getLeaveQRCode_gate_logs: "gate_logs (snd (getLeaveQRCode e user i d)) = gate_logs d"
  by (auto simp: getLeaveQRCode_def Let_def update_leave_def split: option.splits prod.splits)

lemma processLeaveByDW_gate_logs:
  "gate_logs (snd (processLeaveByDW e now user i rq d)) = gate_logs d"
  by (auto simp: processLeaveByDW_def Let_def update_leave_def split: option.splits)

lemma processLeaveByPrincipal_gate_logs:
  "gate_logs (snd (processLeaveByPrincipal e now user i rq d)) = gate_logs d"
  by (auto simp: processLeaveByPrincipal_def Let_def update_leave_def split: option.splits)

lemma requestEmergencyExtension_gate_logs:
  "gate_logs (snd (requestEmergencyExtension user rq d)) = gate_logs d"
  by (auto simp: requestEmergencyExtension_def Let_def split: option.splits)

lemma processEmergencyExtension_gate_logs:
  "gate_logs (snd (processEmergencyExtension now user i rq d)) = gate_logs d"
  by (auto simp: processEmergencyExtension_def Let_def update_leave_def update_extension_def
      split: option.splits)

lemma exits_valid_append:
  "exits_valid logs \<Longrightarrow>
   (gl_leave_application_id row \<noteq> None \<and> action_type row = ''EXIT'' \<longrightarrow> validation_status row = VALID)
   \<Longrightarrow> exits_valid (logs @ [row])"
  by (auto simp: exits_valid_def)

text \<open>Every request keeps the property of the gate log.\<close>

lemma handle_exits_valid:
  assumes "exits_valid (gate_logs d)"
  shows "exits_valid (gate_logs (handle e r d))"
proof (cases r)
  case (ScanQRCode t u rq)
  with scanQRCode_gate_logs [of e t u rq d] assms show ?thesis
    by (auto intro: exits_valid_append)
next
  case (ManualEntryExit ts u rq)
  with manualEntryExit_gate_logs [of ts u rq d] assms show ?thesis
    by (auto intro: exits_valid_append)
qed (simp_all add: assms applyLeave_gate_logs getLeaveQRCode_gate_logs processLeaveByDW_gate_logs
    processLeaveByPrincipal_gate_logs requestEmergencyExtension_gate_logs
    processEmergencyExtension_gate_logs)

lemma reachable_exits_valid: "reachable e d \<Longrightarrow> exits_valid (gate_logs d)"
proof (induction rule: reachable.induct)
  case (start d)
  then show ?case by (simp add: exits_valid_def)
next
  case (request d r)
  from request.IH show ?case by (rule handle_exits_valid)
qed

text \<open>
  C1. In every state a server run reaches, an ENTRY scan is allowed only if the row that
  \<open>lastLog\<close> returns for the token's (student, application) pair exists, is a most
  recent row of that pair, records an EXIT and has status VALID. The handler itself tests
  the action of that row only; the status follows because an EXIT row attributed to an
  application is written with status VALID only. Otherwise, when the credential passes
  \<open>validateQRCode\<close>, the scan is denied with status INVALID and the message
  \<open>No exit record found. Entry not allowed.\<close>, and that outcome is logged.
\<close>

theorem entry_requires_valid_exit:
  assumes reach: "reachable e d"
    and entry: "rq_actionType rq = ''ENTRY''"
    and qr: "rq_qrData rq \<noteq> []"
  shows "(\<forall>ok msg p d'. scanQRCode e t user rq d = (ScanDone ok msg p, d') \<and> sp_allowed p \<longrightarrow>
            (\<exists>dat g. JSON_parse e (rq_qrData rq) = Some dat
               \<and> lastLog (gate_logs d) (q_studentId dat) (q_leaveId dat) = Some g
               \<and> g \<in> set (gate_logs d)
               \<and> gl_student_id g = q_studentId dat
               \<and> gl_leave_application_id g = Some (q_leaveId dat)
               \<and> (\<forall>x \<in> set (gate_logs d).
                     gl_student_id x = q_studentId dat \<and> gl_leave_application_id x = Some (q_leaveId dat)
                     \<longrightarrow> scan_timestamp x \<le> scan_timestamp g)
               \<and> action_type g = ''EXIT'' \<and> validation_status g = VALID))
       \<and> (\<forall>dat. valid (validateQRCode e d (t_now t) (rq_qrData rq))
               \<and> JSON_parse e (rq_qrData rq) = Some dat
               \<and> (\<forall>g. lastLog (gate_logs d) (q_studentId dat) (q_leaveId dat) = Some g
                        \<longrightarrow> \<not> (action_type g = ''EXIT'' \<and> validation_status g = VALID))
             \<longrightarrow> (\<exists>p row. scanQRCode e t user rq d
                               = (ScanDone False no_exit_message p,
                                  d\<lparr> gate_logs := gate_logs d @ [row] \<rparr>)
                     \<and> \<not> sp_allowed p \<and> sp_validationStatus p = INVALID
                     \<and> validation_status row = INVALID
                     \<and> validation_message row = no_exit_message))"
proof (intro conjI allI impI)
  fix ok msg p d'
  assume a: "scanQRCode e t user rq d = (ScanDone ok msg p, d') \<and> sp_allowed p"
  from entry qr have wf: "rq_qrData rq \<noteq> []" "rq_actionType rq = ''EXIT'' \<or> rq_actionType rq = ''ENTRY''"
    by simp_all
  have v: "valid (validateQRCode e d (t_now t) (rq_qrData rq))"
  proof (rule ccontr)
    assume "\<not> valid (validateQRCode e d (t_now t) (rq_qrData rq))"
    from scanQRCode_invalid [OF wf this] a show False by simp
  qed
  then obtain dat leave where p: "JSON_parse e (rq_qrData rq) = Some dat"
    and eq: "validateQRCode e d (t_now t) (rq_qrData rq)
               = \<lparr> valid = True, v_message = ''Valid QR code'', v_leave = Some leave \<rparr>"
    by (rule validateQRCode_valid)
  from scan_check_valid [OF eq p, of user] obtain v' le where
    sc: "scan_check e d t user rq = Some (v', le)"
    and st: "le_studentId le = Some (q_studentId dat)"
    and seq: "rq_actionType rq = ''ENTRY'' \<longrightarrow>
                (case lastLog (gate_logs d) (q_studentId dat) (q_leaveId dat) of
                   None \<Rightarrow> \<not> valid v' \<and> le_validationStatus le = INVALID \<and> v_message v' = no_exit_message
                 | Some g \<Rightarrow>
                     if action_type g \<noteq> ''EXIT''
                     then \<not> valid v' \<and> le_validationStatus le = INVALID \<and> v_message v' = no_exit_message
                     else if t_today t > end_of_day (to_date leave)
                     then \<not> valid v' \<and> le_validationStatus le = EXPIRED
                          \<and> v_message v' = ''Leave period expired''
                     else valid v')"
    by blast
  from scanQRCode_logged [OF wf sc st] a have allowed: "valid v'" by auto
  with seq entry obtain g where
    g: "lastLog (gate_logs d) (q_studentId dat) (q_leaveId dat) = Some g"
    and ex: "action_type g = ''EXIT''"
    by (cases "lastLog (gate_logs d) (q_studentId dat) (q_leaveId dat)")
      (auto split: if_splits)
  note props = lastLog_Some [OF g]
  from reachable_exits_valid [OF reach] props(1,3) ex have "validation_status g = VALID"
    by (auto simp: exits_valid_def)
  with p g ex props
  show "\<exists>dat g. JSON_parse e (rq_qrData rq) = Some dat
               \<and> lastLog (gate_logs d) (q_studentId dat) (q_leaveId dat) = Some g
               \<and> g \<in> set (gate_logs d)
               \<and> gl_student_id g = q_studentId dat
               \<and> gl_leave_application_id g = Some (q_leaveId dat)
               \<and> (\<forall>x \<in> set (gate_logs d).
                     gl_student_id x = q_studentId dat \<and> gl_leave_application_id x = Some (q_leaveId dat)
                     \<longrightarrow> scan_timestamp x \<le> scan_timestamp g)
               \<and> action_type g = ''EXIT'' \<and> validation_status g = VALID"
    by blast
next
  fix dat
  assume a: "valid (validateQRCode e d (t_now t) (rq_qrData rq))
               \<and> JSON_parse e (rq_qrData rq) = Some dat
               \<and> (\<forall>g. lastLog (gate_logs d) (q_studentId dat) (q_leaveId dat) = Some g
                        \<longrightarrow> \<not> (action_type g = ''EXIT'' \<and> validation_status g = VALID))"
  from entry qr have wf: "rq_qrData rq \<noteq> []" "rq_actionType rq = ''EXIT'' \<or> rq_actionType rq = ''ENTRY''"
    by simp_all
  from a have p: "JSON_parse e (rq_qrData rq) = Some dat" by simp
  from a obtain dat' leave where "JSON_parse e (rq_qrData rq) = Some dat'"
    and eq: "validateQRCode e d (t_now t) (rq_qrData rq)
               = \<lparr> valid = True, v_message = ''Valid QR code'', v_leave = Some leave \<rparr>"
    by (blast elim: validateQRCode_valid)
  have noexit: "\<And>g. lastLog (gate_logs d) (q_studentId dat) (q_leaveId dat) = Some g
                  \<Longrightarrow> action_type g \<noteq> ''EXIT''"
  proof
    fix g
    assume g: "lastLog (gate_logs d) (q_studentId dat) (q_leaveId dat) = Some g"
      and ex: "action_type g = ''EXIT''"
    note props = lastLog_Some [OF g]
    from reachable_exits_valid [OF reach] props(1,3) ex have "validation_status g = VALID"
      by (auto simp: exits_valid_def)
    with a g ex show False by blast
  qed
  from scan_check_valid [OF eq p, of user] obtain v' le where
    sc: "scan_check e d t user rq = Some (v', le)"
    and st: "le_studentId le = Some (q_studentId dat)"
    and msg: "le_validationMessage le = v_message v'"
    and seq: "rq_actionType rq = ''ENTRY'' \<longrightarrow>
                (case lastLog (gate_logs d) (q_studentId dat) (q_leaveId dat) of
                   None \<Rightarrow> \<not> valid v' \<and> le_validationStatus le = INVALID \<and> v_message v' = no_exit_message
                 | Some g \<Rightarrow>
                     if action_type g \<noteq> ''EXIT''
                     then \<not> valid v' \<and> le_validationStatus le = INVALID \<and> v_message v' = no_exit_message
                     else if t_today t > end_of_day (to_date leave)
                     then \<not> valid v' \<and> le_validationStatus le = EXPIRED
                          \<and> v_message v' = ''Leave period expired''
                     else valid v')"
    by blast
  from seq entry noexit have res: "\<not> valid v'" "le_validationStatus le = INVALID"
    "v_message v' = no_exit_message"
    by (cases "lastLog (gate_logs d) (q_studentId dat) (q_leaveId dat)"; simp)+
  from scanQRCode_logged [OF wf sc st] obtain pl where
    r: "scanQRCode e t user rq d =
           (ScanDone (valid v') (v_message v') pl,
            d\<lparr> gate_logs := gate_logs d @
                 [row_of le (q_studentId dat) (fresh_id (map gl_id (gate_logs d))) (t_db t)] \<rparr>)"
    and pl: "sp_validationStatus pl = le_validationStatus le" "sp_allowed pl = valid v'"
    by blast
  show "\<exists>p row. scanQRCode e t user rq d
                               = (ScanDone False no_exit_message p,
                                  d\<lparr> gate_logs := gate_logs d @ [row] \<rparr>)
                     \<and> \<not> sp_allowed p \<and> sp_validationStatus p = INVALID
                     \<and> validation_status row = INVALID
                     \<and> validation_message row = no_exit_message"
    apply (rule exI [of _ pl])
    apply (rule exI [of _ "row_of le (q_studentId dat) (fresh_id (map gl_id (gate_logs d))) (t_db t)"])
    apply (simp add: r pl res msg row_of_def)
    done
qed

lemma demo_token_nonempty: "demo_token la \<noteq> []"
  by (simp add: demo_token_def generateQRCodeData_def stringify_qr_data_def)

lemma demo_parse_own:
  "JSON_parse (demo_env (la # las)) (demo_token la) = Some (qr_data_of demo_env_base la demo_student)"
  by (simp add: demo_env_def)

lemma demo_generateHash: "generateHash (demo_env las) = generateHash demo_env_base"
  by (simp add: generateHash_def demo_env_def fun_eq_iff)

lemma demo_validateQRCode:
  assumes "JSON_parse (demo_env las) (demo_token la) = Some (qr_data_of demo_env_base la demo_student)"
    and "find (\<lambda>x. s_id x = 1) (students d) \<noteq> None"
    and "find (\<lambda>x. la_id x = la_id la \<and> la_student_id x = 1) (leave_applications d) = Some la'"
    and "approved (la_status la')"
    and "(case qr_code_expires_at la' of None \<Rightarrow> 0 | Some t \<Rightarrow> t) \<le> now"
    and "now \<le> end_of_day (to_date la')"
  shows "validateQRCode (demo_env las) d now (demo_token la)
           = \<lparr> valid = True, v_message = ''Valid QR code'', v_leave = Some la' \<rparr>"
  using assms
  by (auto simp: validateQRCode_def demo_generateHash qr_data_of_def find_leave_of_student_def
      demo_student_def approved_def Let_def split: option.splits)

lemma demo_scan_fields [simp]:
  "rq_qrData (demo_scan la act) = demo_token la"
  "rq_actionType (demo_scan la act) = act"
  "rq_location (demo_scan la act) = []"
  by (simp_all add: demo_scan_def)

lemma demo_times_fields [simp]:
  "t_now (demo_times t) = t" "t_today (demo_times t) = t" "t_db (demo_times t) = t"
  by (simp_all add: demo_times_def)

lemma fresh_id_Nil [simp]: "fresh_id [] = 1"
  by (simp add: fresh_id_def)

lemma fresh_id_single [simp]: "fresh_id [n] = Suc n"
  by (simp add: fresh_id_def)

lemma demo_scan_exit:
  assumes "0 \<le> T" "T \<le> end_of_day 20002"
  shows "scanQRCode (demo_env [demo_la]) (demo_times T) 41 (demo_scan demo_la ''EXIT'')
           (demo_db [demo_la])
         = (ScanDone True ''Valid QR code''
              \<lparr> sp_logId = 1, sp_actionType = ''EXIT'', sp_validationStatus = VALID,
                sp_student = Some demo_student, sp_leave = Some (20000, 20002, APPROVED_DW),
                sp_allowed = True \<rparr>,
            (demo_db [demo_la])\<lparr> gate_logs := [demo_row 1 demo_la ''EXIT'' T VALID ''Valid QR code''] \<rparr>)"
proof -
  have v: "validateQRCode (demo_env [demo_la]) (demo_db [demo_la]) T (demo_token demo_la)
             = \<lparr> valid = True, v_message = ''Valid QR code'', v_leave = Some demo_la \<rparr>"
    using assms
    by (intro demo_validateQRCode demo_parse_own)
      (simp_all add: demo_db_def demo_la_def demo_leave_def demo_student_def approved_def)
  show ?thesis
    by (simp add: scanQRCode_def scan_check_def v demo_token_nonempty
        demo_parse_own qr_data_of_def insert_gate_log_Some demo_row_def Let_def)
      (simp add: demo_db_def demo_la_def demo_leave_def demo_student_def)
qed

lemma demo_scan_entry:
  assumes "0 \<le> T" "T \<le> end_of_day 20002"
  shows "scanQRCode (demo_env [demo_la]) (demo_times T) 41 (demo_scan demo_la ''ENTRY'')
           ((demo_db [demo_la])\<lparr> gate_logs := [demo_row i demo_la ''EXIT'' T0 VALID m] \<rparr>)
         = (ScanDone True ''Valid QR code''
              \<lparr> sp_logId = Suc i, sp_actionType = ''ENTRY'', sp_validationStatus = VALID,
                sp_student = Some demo_student, sp_leave = Some (20000, 20002, APPROVED_DW),
                sp_allowed = True \<rparr>,
            (demo_db [demo_la])\<lparr> gate_logs := [demo_row i demo_la ''EXIT'' T0 VALID m,
                                                 demo_row (Suc i) demo_la ''ENTRY'' T VALID ''Valid QR code''] \<rparr>)"
proof -
  let ?d = "(demo_db [demo_la])\<lparr> gate_logs := [demo_row i demo_la ''EXIT'' T0 VALID m] \<rparr>"
  have v: "validateQRCode (demo_env [demo_la]) ?d T (demo_token demo_la)
             = \<lparr> valid = True, v_message = ''Valid QR code'', v_leave = Some demo_la \<rparr>"
    using assms
    by (intro demo_validateQRCode demo_parse_own)
      (simp_all add: demo_db_def demo_la_def demo_leave_def demo_student_def approved_def)
  have l: "lastLog [demo_row i demo_la ''EXIT'' T0 VALID m] (s_id demo_student) (la_id demo_la)
             = Some (demo_row i demo_la ''EXIT'' T0 VALID m)"
    by (simp add: lastLog_def demo_row_def demo_student_def)
  have a: "action_type (demo_row i demo_la ''EXIT'' T0 VALID m) = ''EXIT''"
    by (simp add: demo_row_def)
  have td: "to_date demo_la = 20002"
    by (simp add: demo_la_def demo_leave_def)
  have sc: "scan_check (demo_env [demo_la]) ?d (demo_times T) 41 (demo_scan demo_la ''ENTRY'')
      = Some (\<lparr> valid = True, v_message = ''Valid QR code'', v_leave = Some demo_la \<rparr>,
              \<lparr> le_studentId = Some (s_id demo_student), le_leaveApplicationId = Some (la_id demo_la),
                le_actionType = ''ENTRY'',
                le_scannedBy = 41, le_qrCodeData = demo_token demo_la,
                le_validationStatus = VALID, le_validationMessage = ''Valid QR code'',
                le_location = ''Main Gate'' \<rparr>)"
    using assms
    by (simp add: scan_check_def v demo_parse_own qr_data_of_def Let_def l a td)
  show ?thesis
    by (simp add: scanQRCode_def sc demo_token_nonempty insert_gate_log_Some Let_def)
      (simp add: demo_db_def demo_la_def demo_leave_def demo_student_def demo_row_def)
qed

theorem entry_requires_valid_exit_witness:
  "(\<exists>ok msg p d'. scanQRCode (demo_env [demo_la]) (demo_times (date_instant 20001)) 41
                     (demo_scan demo_la ''ENTRY'')
                     (handle (demo_env [demo_la])
                        (ScanQRCode (demo_times (date_instant 20000)) 41 (demo_scan demo_la ''EXIT''))
                        (demo_db [demo_la]))
                   = (ScanDone ok msg p, d') \<and> sp_allowed p)
   \<and> (\<exists>dat g. JSON_parse (demo_env [demo_la]) (demo_token demo_la) = Some dat
          \<and> lastLog (gate_logs (handle (demo_env [demo_la])
                        (ScanQRCode (demo_times (date_instant 20000)) 41 (demo_scan demo_la ''EXIT''))
                        (demo_db [demo_la]))) (q_studentId dat) (q_leaveId dat) = Some g
          \<and> action_type g = ''EXIT'' \<and> validation_status g = VALID)"
proof -
  let ?e = "demo_env [demo_la]"
  let ?d0 = "demo_db [demo_la]"
  let ?r = "ScanQRCode (demo_times (date_instant 20000)) 41 (demo_scan demo_la ''EXIT'')"
  have t0: "0 \<le> date_instant 20000" "date_instant 20000 \<le> end_of_day 20002"
    and t1: "0 \<le> date_instant 20001" "date_instant 20001 \<le> end_of_day 20002"
    by (simp_all add: date_instant_def end_of_day_def day_ms_def)
  have "reachable ?e ?d0"
    by (rule reachable.start) (simp add: demo_db_def)
  then have reach: "reachable ?e (handle ?e ?r ?d0)"
    by (rule reachable.request)
  have d1: "handle ?e ?r ?d0
      = ?d0\<lparr> gate_logs := [demo_row 1 demo_la ''EXIT'' (date_instant 20000) VALID ''Valid QR code''] \<rparr>"
    by (simp add: demo_scan_exit [OF t0])
  have entry: "rq_actionType (demo_scan demo_la ''ENTRY'') = ''ENTRY''"
    and qr: "rq_qrData (demo_scan demo_la ''ENTRY'') \<noteq> []"
    by (simp_all add: demo_token_nonempty)
  have allowed: "\<exists>ok msg p d'. scanQRCode ?e (demo_times (date_instant 20001)) 41
                     (demo_scan demo_la ''ENTRY'') (handle ?e ?r ?d0)
                   = (ScanDone ok msg p, d') \<and> sp_allowed p"
    unfolding d1 by (auto simp: demo_scan_entry [OF t1])
  then obtain ok msg p d' where
    a: "scanQRCode ?e (demo_times (date_instant 20001)) 41
                     (demo_scan demo_la ''ENTRY'') (handle ?e ?r ?d0)
                   = (ScanDone ok msg p, d') \<and> sp_allowed p"
    by blast
  from entry_requires_valid_exit [OF reach entry qr, of "demo_times (date_instant 20001)" 41,
      THEN conjunct1, rule_format, OF a]
  have "\<exists>dat g. JSON_parse ?e (demo_token demo_la) = Some dat
          \<and> lastLog (gate_logs (handle ?e ?r ?d0)) (q_studentId dat) (q_leaveId dat) = Some g
          \<and> action_type g = ''EXIT'' \<and> validation_status g = VALID"
    by auto
  with allowed show ?thesis by blast
qed

lemma demo_token_hd: "demo_token la = CHR ''{'' # tl (demo_token la)"
  by (simp add: demo_token_def generateQRCodeData_def stringify_qr_data_def)

lemma demo_parse_other:
  "hd s \<noteq> CHR ''{'' \<Longrightarrow> JSON_parse (demo_env [la]) s = None"
proof -
  have "hd (demo_token la) = CHR ''{''"
    by (subst demo_token_hd) simp
  then show "hd s \<noteq> CHR ''{'' \<Longrightarrow> JSON_parse (demo_env [la]) s = None"
    by (auto simp: demo_env_def)
qed

text \<open>
  C9. A scan with a payload that is not a credential (\<open>not-json\<close>, action EXIT): the log
  entry is built with status INVALID and without a student, the insert is refused because
  \<open>gate_logs.student_id\<close> is \<open>NOT NULL\<close>, and the handler answers 500 and appends no
  row, where the specification has exactly one row appended for every outcome.
\<close>

theorem scanQRCode_invalid_not_logged:
  "scan_check (demo_env [demo_la]) (demo_db [demo_la]) (demo_times (date_instant 20000)) 41
       \<lparr> rq_qrData = ''not-json'', rq_actionType = ''EXIT'', rq_location = ''Main Gate'' \<rparr>
     = Some (\<lparr> valid = False, v_message = ''Invalid QR code format'', v_leave = None \<rparr>,
             \<lparr> le_studentId = None, le_leaveApplicationId = None, le_actionType = ''EXIT'',
               le_scannedBy = 41, le_qrCodeData = ''not-json'', le_validationStatus = INVALID,
               le_validationMessage = ''Invalid QR code format'', le_location = ''Main Gate'' \<rparr>)
   \<and> scanQRCode (demo_env [demo_la]) (demo_times (date_instant 20000)) 41
       \<lparr> rq_qrData = ''not-json'', rq_actionType = ''EXIT'', rq_location = ''Main Gate'' \<rparr>
       (demo_db [demo_la])
     = (ScanFailure 500 ''QR code scanning failed'', demo_db [demo_la])"
proof -
  have p: "JSON_parse (demo_env [demo_la]) ''not-json'' = None"
    by (rule demo_parse_other) simp
  have v: "validateQRCode (demo_env [demo_la]) (demo_db [demo_la]) (date_instant 20000) ''not-json''
             = \<lparr> valid = False, v_message = ''Invalid QR code format'', v_leave = None \<rparr>"
    by (simp add: validateQRCode_def p)
  show ?thesis
    by (simp add: scanQRCode_def scan_check_def v)
qed

text \<open>The answer of \<open>validateQRCode\<close> to an authentic credential of an approved leave
  presented after the end of the last day.\<close>

lemma validateQRCode_expired:
  assumes "JSON_parse e qr = Some dat"
    and "q_hash dat = generateHash e (q_leaveId dat) (q_studentId dat) (q_fromDate dat)"
    and "find_leave_of_student d (q_leaveId dat) (q_studentId dat) = Some leave"
    and "approved (la_status leave)"
    and "(case qr_code_expires_at leave of None \<Rightarrow> 0 | Some t \<Rightarrow> t) \<le> now"
    and "now > end_of_day (to_date leave)"
  shows "validateQRCode e d now qr
           = \<lparr> valid = False, v_message = ''Leave period expired'', v_leave = None \<rparr>"
  using assms by (auto simp: validateQRCode_def approved_def Let_def)

text \<open>
  Every well-formed scan of such a credential, EXIT or ENTRY: the log entry has status
  INVALID and no student, and the handler answers 500 without a row.
\<close>

lemma scanQRCode_expired:
  assumes "rq_qrData rq \<noteq> []" "rq_actionType rq = ''EXIT'' \<or> rq_actionType rq = ''ENTRY''"
    and "JSON_parse e (rq_qrData rq) = Some dat"
    and "q_hash dat = generateHash e (q_leaveId dat) (q_studentId dat) (q_fromDate dat)"
    and "find_leave_of_student d (q_leaveId dat) (q_studentId dat) = Some leave"
    and "approved (la_status leave)"
    and "(case qr_code_expires_at leave of None \<Rightarrow> 0 | Some t \<Rightarrow> t) \<le> t_now t"
    and "t_now t > end_of_day (to_date leave)"
  shows "\<exists>v le. scan_check e d t user rq = Some (v, le)
           \<and> le_validationStatus le = INVALID \<and> le_studentId le = None
           \<and> le_validationMessage le = ''Leave period expired''"
    and "scanQRCode e t user rq d = (ScanFailure 500 ''QR code scanning failed'', d)"
proof -
  note v = validateQRCode_expired [OF assms(3-8)]
  then have nv: "\<not> valid (validateQRCode e d (t_now t) (rq_qrData rq))" by simp
  show "\<exists>v le. scan_check e d t user rq = Some (v, le)
           \<and> le_validationStatus le = INVALID \<and> le_studentId le = None
           \<and> le_validationMessage le = ''Leave period expired''"
    by (simp add: scan_check_invalid [OF nv] v)
  show "scanQRCode e t user rq d = (ScanFailure 500 ''QR code scanning failed'', d)"
    by (rule scanQRCode_invalid [OF assms(1,2) nv])
qed

lemma demo_validateQRCode_expired:
  assumes "find (\<lambda>x. s_id x = 1) (students d) \<noteq> None"
    and "find (\<lambda>x. la_id x = la_id la \<and> la_student_id x = 1) (leave_applications d) = Some la'"
    and "approved (la_status la')"
    and "(case qr_code_expires_at la' of None \<Rightarrow> 0 | Some t \<Rightarrow> t) \<le> now"
    and "now > end_of_day (to_date la')"
  shows "validateQRCode (demo_env (la # las)) d now (demo_token la)
           = \<lparr> valid = False, v_message = ''Leave period expired'', v_leave = None \<rparr>"
  using assms
  by (intro validateQRCode_expired [OF demo_parse_own])
    (auto simp: demo_generateHash qr_data_of_def find_leave_of_student_def demo_student_def
      split: option.splits)

text \<open>
  C3. The student left with a valid EXIT scan on day 20000 and presents the same
  credential for ENTRY on day 20003, after the end of the last day (20002) of the leave:
  the log entry carries status INVALID, not EXPIRED, and no student, because
  \<open>validateQRCode\<close> already answers \<open>Leave period expired\<close> and \<open>scanQRCode\<close> maps every
  failed validation to INVALID before its own EXPIRED branch can run; the insert of that
  entry is then refused and the handler answers 500.
\<close>

theorem scanQRCode_after_to_date:
  "end_of_day 20002 < date_instant 20003 + 1
   \<and> scan_check (demo_env [demo_la])
       ((demo_db [demo_la])\<lparr> gate_logs :=
            [demo_row 1 demo_la ''EXIT'' (date_instant 20000) VALID ''Valid QR code''] \<rparr>)
       (demo_times (date_instant 20003 + 1)) 41 (demo_scan demo_la ''ENTRY'')
     = Some (\<lparr> valid = False, v_message = ''Leave period expired'', v_leave = None \<rparr>,
             \<lparr> le_studentId = None, le_leaveApplicationId = None, le_actionType = ''ENTRY'',
               le_scannedBy = 41, le_qrCodeData = demo_token demo_la,
               le_validationStatus = INVALID, le_validationMessage = ''Leave period expired'',
               le_location = ''Main Gate'' \<rparr>)
   \<and> scanQRCode (demo_env [demo_la]) (demo_times (date_instant 20003 + 1)) 41
       (demo_scan demo_la ''ENTRY'')
       ((demo_db [demo_la])\<lparr> gate_logs :=
            [demo_row 1 demo_la ''EXIT'' (date_instant 20000) VALID ''Valid QR code''] \<rparr>)
     = (ScanFailure 500 ''QR code scanning failed'',
        (demo_db [demo_la])\<lparr> gate_logs :=
            [demo_row 1 demo_la ''EXIT'' (date_instant 20000) VALID ''Valid QR code''] \<rparr>)"
proof -
  let ?d = "(demo_db [demo_la])\<lparr> gate_logs :=
            [demo_row 1 demo_la ''EXIT'' (date_instant 20000) VALID ''Valid QR code''] \<rparr>"
  have late: "end_of_day 20002 < date_instant 20003 + 1"
    by (simp add: end_of_day_def date_instant_def day_ms_def)
  have v: "validateQRCode (demo_env [demo_la]) ?d (date_instant 20003 + 1) (demo_token demo_la)
             = \<lparr> valid = False, v_message = ''Leave period expired'', v_leave = None \<rparr>"
    by (rule demo_validateQRCode_expired [where la' = demo_la])
      (simp_all add: demo_db_def demo_la_def demo_leave_def demo_student_def approved_def
        end_of_day_def date_instant_def day_ms_def)
  then have nv: "\<not> valid (validateQRCode (demo_env [demo_la]) ?d
                   (t_now (demo_times (date_instant 20003 + 1)))
                   (rq_qrData (demo_scan demo_la ''ENTRY'')))"
    by simp
  have sc: "scan_check (demo_env [demo_la]) ?d (demo_times (date_instant 20003 + 1)) 41
              (demo_scan demo_la ''ENTRY'')
     = Some (\<lparr> valid = False, v_message = ''Leave period expired'', v_leave = None \<rparr>,
             \<lparr> le_studentId = None, le_leaveApplicationId = None, le_actionType = ''ENTRY'',
               le_scannedBy = 41, le_qrCodeData = demo_token demo_la,
               le_validationStatus = INVALID, le_validationMessage = ''Leave period expired'',
               le_location = ''Main Gate'' \<rparr>)"
    by (subst scan_check_invalid [OF nv]) (simp add: v del: One_nat_def)
  have "scanQRCode (demo_env [demo_la]) (demo_times (date_instant 20003 + 1)) 41
          (demo_scan demo_la ''ENTRY'') ?d = (ScanFailure 500 ''QR code scanning failed'', ?d)"
    by (rule scanQRCode_invalid [OF _ _ nv]) (simp_all add: demo_token_nonempty)
  with late sc show ?thesis by simp
qed

lemma demo_scan_entry_no_exit:
  assumes "0 \<le> T" "T \<le> end_of_day 20002"
  shows "scan_check (demo_env [demo_la]) (demo_db [demo_la]) (demo_times T) 41
           (demo_scan demo_la ''ENTRY'')
         = Some (\<lparr> valid = False, v_message = no_exit_message, v_leave = Some demo_la \<rparr>,
                 \<lparr> le_studentId = Some 1, le_leaveApplicationId = Some 1,
                   le_actionType = ''ENTRY'', le_scannedBy = 41,
                   le_qrCodeData = demo_token demo_la, le_validationStatus = INVALID,
                   le_validationMessage = no_exit_message, le_location = ''Main Gate'' \<rparr>)"
    and "scanQRCode (demo_env [demo_la]) (demo_times T) 41 (demo_scan demo_la ''ENTRY'')
           (demo_db [demo_la])
         = (ScanDone False no_exit_message
              \<lparr> sp_logId = 1, sp_actionType = ''ENTRY'', sp_validationStatus = INVALID,
                sp_student = None, sp_leave = None, sp_allowed = False \<rparr>,
            (demo_db [demo_la])\<lparr> gate_logs :=
                 [demo_row 1 demo_la ''ENTRY'' T INVALID no_exit_message] \<rparr>)"
proof -
  have v: "validateQRCode (demo_env [demo_la]) (demo_db [demo_la]) T (demo_token demo_la)
             = \<lparr> valid = True, v_message = ''Valid QR code'', v_leave = Some demo_la \<rparr>"
    using assms
    by (intro demo_validateQRCode demo_parse_own)
      (simp_all add: demo_db_def demo_la_def demo_leave_def demo_student_def approved_def)
  have l: "lastLog (gate_logs (demo_db [demo_la])) (s_id demo_student) (la_id demo_la) = None"
    by (simp add: lastLog_def demo_db_def)
  have ids: "s_id demo_student = 1" "la_id demo_la = 1"
    by (simp_all add: demo_student_def demo_la_def demo_leave_def)
  show sc: "scan_check (demo_env [demo_la]) (demo_db [demo_la]) (demo_times T) 41
           (demo_scan demo_la ''ENTRY'')
         = Some (\<lparr> valid = False, v_message = no_exit_message, v_leave = Some demo_la \<rparr>,
                 \<lparr> le_studentId = Some 1, le_leaveApplicationId = Some 1,
                   le_actionType = ''ENTRY'', le_scannedBy = 41,
                   le_qrCodeData = demo_token demo_la, le_validationStatus = INVALID,
                   le_validationMessage = no_exit_message, le_location = ''Main Gate'' \<rparr>)"
    by (simp add: scan_check_def v demo_parse_own qr_data_of_def Let_def l del: One_nat_def)
      (simp add: ids)
  show "scanQRCode (demo_env [demo_la]) (demo_times T) 41 (demo_scan demo_la ''ENTRY'')
           (demo_db [demo_la])
         = (ScanDone False no_exit_message
              \<lparr> sp_logId = 1, sp_actionType = ''ENTRY'', sp_validationStatus = INVALID,
                sp_student = None, sp_leave = None, sp_allowed = False \<rparr>,
            (demo_db [demo_la])\<lparr> gate_logs :=
                 [demo_row 1 demo_la ''ENTRY'' T INVALID no_exit_message] \<rparr>)"
    by (simp add: scanQRCode_def sc demo_token_nonempty insert_gate_log_Some Let_def
        del: One_nat_def)
      (simp add: demo_db_def demo_row_def ids)
qed

text \<open>
  Statement C10 of the specification fails where it says that every scan with a final
  outcome other than VALID is logged without student and application: an ENTRY scan of an
  authentic credential of an approved leave, with no exit on record, is denied with
  status INVALID, and the appended row names the student and the application.
\<close>

theorem denied_entry_is_attributed:
  "scanQRCode (demo_env [demo_la]) (demo_times (date_instant 20000)) 41
       (demo_scan demo_la ''ENTRY'') (demo_db [demo_la])
     = (ScanDone False no_exit_message
          \<lparr> sp_logId = 1, sp_actionType = ''ENTRY'', sp_validationStatus = INVALID,
            sp_student = None, sp_leave = None, sp_allowed = False \<rparr>,
        (demo_db [demo_la])\<lparr> gate_logs :=
             [demo_row 1 demo_la ''ENTRY'' (date_instant 20000) INVALID no_exit_message] \<rparr>)
   \<and> gl_student_id (demo_row 1 demo_la ''ENTRY'' (date_instant 20000) INVALID no_exit_message) = 1
   \<and> gl_leave_application_id (demo_row 1 demo_la ''ENTRY'' (date_instant 20000) INVALID no_exit_message)
       = Some 1
   \<and> validation_status (demo_row 1 demo_la ''ENTRY'' (date_instant 20000) INVALID no_exit_message)
       = INVALID"
proof -
  have t0: "0 \<le> date_instant 20000" "date_instant 20000 \<le> end_of_day 20002"
    by (simp_all add: date_instant_def end_of_day_def day_ms_def)
  show ?thesis
    by (simp add: demo_scan_entry_no_exit(2) [OF t0] del: One_nat_def)
      (simp add: demo_row_def demo_la_def demo_leave_def)
qed

text \<open>
  C10, amended. \<open>scanQRCode\<close> always builds a log entry, and the entry names the
  student and the application of the token exactly when \<open>validateQRCode\<close> succeeds, also
  when the ENTRY checks then turn the final status into INVALID or EXPIRED; when
  \<open>validateQRCode\<close> fails (malformed, tampered, application not found, not approved, not
  yet valid, expired) the entry has neither and has status INVALID.
\<close>

theorem log_entry_attribution:
  "\<exists>v le. scan_check e d t user rq = Some (v, le)
     \<and> (if valid (validateQRCode e d (t_now t) (rq_qrData rq))
        then \<exists>dat. JSON_parse e (rq_qrData rq) = Some dat
               \<and> le_studentId le = Some (q_studentId dat)
               \<and> le_leaveApplicationId le = Some (q_leaveId dat)
               \<and> le_validationStatus le \<in> {VALID, INVALID, EXPIRED}
        else le_studentId le = None \<and> le_leaveApplicationId le = None
               \<and> le_validationStatus le = INVALID)"
proof (cases "valid (validateQRCode e d (t_now t) (rq_qrData rq))")
  case False
  then show ?thesis by (simp add: scan_check_invalid)
next
  case True
  then obtain dat leave where p: "JSON_parse e (rq_qrData rq) = Some dat"
    and eq: "validateQRCode e d (t_now t) (rq_qrData rq)
               = \<lparr> valid = True, v_message = ''Valid QR code'', v_leave = Some leave \<rparr>"
    by (rule validateQRCode_valid)
  from scan_check_valid [OF eq p, of user] obtain v' le where
    sc: "scan_check e d t user rq = Some (v', le)"
    and le: "le_studentId le = Some (q_studentId dat)"
      "le_leaveApplicationId le = Some (q_leaveId dat)"
    by blast
  have "le_validationStatus le \<in> {VALID, INVALID, EXPIRED}"
    using sc by (auto simp: scan_check_def Let_def eq p split: option.splits if_splits)
  with True p sc le show ?thesis by simp
qed

theorem log_entry_attribution_witness:
  "\<exists>v le. scan_check (demo_env [demo_la]) (demo_db [demo_la]) (demo_times (date_instant 20000)) 41
              (demo_scan demo_la ''ENTRY'') = Some (v, le)
         \<and> le_validationStatus le = INVALID
         \<and> le_studentId le = Some (s_id demo_student)
         \<and> le_leaveApplicationId le = Some (la_id demo_la)"
proof -
  have t0: "0 \<le> date_instant 20000" "date_instant 20000 \<le> end_of_day 20002"
    by (simp_all add: date_instant_def end_of_day_def day_ms_def)
  note sc = demo_scan_entry_no_exit(1) [OF t0]
  have v: "valid (validateQRCode (demo_env [demo_la]) (demo_db [demo_la])
                    (t_now (demo_times (date_instant 20000)))
                    (rq_qrData (demo_scan demo_la ''ENTRY'')))"
    by (simp, subst demo_validateQRCode [OF demo_parse_own, where la' = demo_la])
      (simp_all add: demo_db_def demo_la_def demo_leave_def demo_student_def approved_def t0)
  from log_entry_attribution [of "demo_env [demo_la]" "demo_db [demo_la]"
      "demo_times (date_instant 20000)" 41 "demo_scan demo_la ''ENTRY''"]
  obtain v' le where le: "scan_check (demo_env [demo_la]) (demo_db [demo_la])
        (demo_times (date_instant 20000)) 41 (demo_scan demo_la ''ENTRY'') = Some (v', le)"
    and att: "\<exists>dat. JSON_parse (demo_env [demo_la]) (rq_qrData (demo_scan demo_la ''ENTRY'')) = Some dat
               \<and> le_studentId le = Some (q_studentId dat)
               \<and> le_leaveApplicationId le = Some (q_leaveId dat)"
    using v by auto
  from att have "le_studentId le = Some (s_id demo_student)"
    "le_leaveApplicationId le = Some (la_id demo_la)"
    by (auto simp: demo_parse_own qr_data_of_def)
  moreover from le have "le_validationStatus le = INVALID"
    unfolding sc by auto
  ultimately show ?thesis using le by blast
qed

section \<open>Presence\<close>












section \<open>Tamper detection\<close>










end
